theory Spec2Isabelle
  imports Main "HOL-Library.AList" "HOL-Library.Multiset"
begin

section \<open>Python values, exceptions and log records\<close>

text \<open>
  The generator keeps its data in Python objects decoded from JSON. A float is kept as a
  mantissa and a binary exponent (or one of the special values the decoder accepts); the
  only thing the code ever asks of a float is whether it is zero. \<open>PDatetime\<close> is the one
  value that does not come from JSON: the feed generator stores a parsed date under the
  key \<open>_date_obj\<close> of a post's front matter. A datetime is its distance from
  \<open>datetime.min\<close>, so that \<open>datetime_min\<close> is the least one.

  A text is a list of characters, one \<open>char\<close> per code point.
\<close>

datatype pyfloat = FFinite int int | FInf bool | FNaN

datatype pyval =
    PNone
  | PBool bool
  | PInt int
  | PFloat pyfloat
  | PStr string
  | PList "pyval list"
  | PDict "(string \<times> pyval) list"
  | PDatetime nat

type_synonym pydict = "(string \<times> pyval) list"

definition datetime_min :: nat where
  "datetime_min = 0"

datatype exn =
    JSONDecodeError
  | KeyError
  | AttributeError
  | TypeError
  | ValueError
  | RecursionError
  | ExpatError
  | OtherException

datatype log_entry = Info string | Warning string | Error string

text \<open>The truth value Python gives an object in \<open>if x\<close>, \<open>x if x else y\<close> and \<open>not x\<close>.\<close>

fun truthy :: "pyval \<Rightarrow> bool" where
  "truthy PNone = False"
| "truthy (PBool b) = b"
| "truthy (PInt n) = (n \<noteq> 0)"
| "truthy (PFloat (FFinite m e)) = (m \<noteq> 0)"
| "truthy (PFloat _) = True"
| "truthy (PStr s) = (s \<noteq> [])"
| "truthy (PList xs) = (xs \<noteq> [])"
| "truthy (PDict kvs) = (kvs \<noteq> [])"
| "truthy (PDatetime _) = True"

text \<open>\<open>d.get(k)\<close> on an optional configuration key: an absent key reads as \<open>None\<close>.\<close>

fun get_truthy :: "pyval option \<Rightarrow> bool" where
  "get_truthy None = False"
| "get_truthy (Some v) = truthy v"

fun is_dict :: "pyval \<Rightarrow> bool" where
  "is_dict (PDict _) = True"
| "is_dict _ = False"

section \<open>String operations of the Python runtime\<close>

definition startswith :: "string \<Rightarrow> string \<Rightarrow> bool" where
  "startswith s p = (take (length p) s = p)"

definition endswith :: "string \<Rightarrow> string \<Rightarrow> bool" where
  "endswith s p = (length p \<le> length s \<and> drop (length s - length p) s = p)"

text \<open>\<open>s.lstrip(chars)\<close> removes the longest prefix made of characters of \<open>chars\<close>.\<close>

definition lstrip :: "string \<Rightarrow> string \<Rightarrow> string" where
  "lstrip chars s = dropWhile (\<lambda>c. c \<in> set chars) s"

text \<open>
  \<open>str.isspace\<close> on the code points below 256: tab to carriage return, the four
  separators 28 to 31, the space, NEL (133) and the no-break space (160).
\<close>

definition isspace :: "char \<Rightarrow> bool" where
  "isspace c = (let n = (of_char c :: nat) in
     (9 \<le> n \<and> n \<le> 13) \<or> (28 \<le> n \<and> n \<le> 32) \<or> n = 133 \<or> n = 160)"

definition strip :: "string \<Rightarrow> string" where
  "strip s = rev (dropWhile isspace (rev (dropWhile isspace s)))"

text \<open>
  \<open>find_sep sep s\<close> cuts \<open>s\<close> at the leftmost occurrence of \<open>sep\<close>;
  \<open>split_max sep n s\<close> is \<open>s.split(sep, n)\<close> for a non-empty separator (the source only
  passes the literals \<open>'+++'\<close> and \<open>os.sep\<close>), and \<open>split_all\<close> is \<open>s.split(sep)\<close>: a cut
  consumes at least one character, so \<open>length s\<close> cuts are as good as no limit.
\<close>

fun find_sep :: "string \<Rightarrow> string \<Rightarrow> (string \<times> string) option" where
  "find_sep sep [] = (if sep = [] then Some ([], []) else None)"
| "find_sep sep (c # cs) =
     (if startswith (c # cs) sep then Some ([], drop (length sep) (c # cs))
      else map_option (\<lambda>(a, b). (c # a, b)) (find_sep sep cs))"

primrec split_max :: "string \<Rightarrow> nat \<Rightarrow> string \<Rightarrow> string list" where
  "split_max sep 0 s = [s]"
| "split_max sep (Suc n) s =
     (case find_sep sep s of
        None \<Rightarrow> [s]
      | Some (a, b) \<Rightarrow> a # split_max sep n b)"

definition split_all :: "string \<Rightarrow> string \<Rightarrow> string list" where
  "split_all sep s = split_max sep (length s) s"

text \<open>\<open>str.lower\<close> on the code points below 256.\<close>

definition lower_char :: "char \<Rightarrow> char" where
  "lower_char c = (let n = (of_char c :: nat) in
     if (65 \<le> n \<and> n \<le> 90) \<or> (192 \<le> n \<and> n \<le> 222 \<and> n \<noteq> 215)
     then char_of (n + 32) else c)"

definition lower :: "string \<Rightarrow> string" where
  "lower s = map lower_char s"

section \<open>Paths (\<open>posixpath\<close>)\<close>

text \<open>\<open>os.path.join(a, b)\<close>: an absolute second part replaces the first.\<close>

definition path_join :: "string \<Rightarrow> string \<Rightarrow> string" where
  "path_join a b =
     (if startswith b ''/'' then b
      else if a = [] \<or> endswith a ''/'' then a @ b
      else a @ ''/'' @ b)"

section \<open>Configuration\<close>

text \<open>
  The configuration is the JSON object of the configuration file. Its required keys are
  texts; the optional keys are options (\<open>None\<close> when the key is absent). The two
  switches stay arbitrary JSON values, because the code tests their truth value.
\<close>

record collection_settings =
  c_path :: "string option"
  c_output :: "string option"

record config =
  pages_dir :: string
  templates_dir :: string
  static_dir :: string
  assets_dir :: string
  output_dir :: string
  base_url :: string
  data_dir :: "string option"
  collections :: "(string \<times> collection_settings) list option"
  use_absolute_urls :: "pyval option"
  use_absolute_static :: "pyval option"
  site_title :: "pyval option"
  site_description :: "pyval option"

section \<open>URL helpers (\<open>url_helpers.py\<close>)\<close>

definition url :: "string \<Rightarrow> config \<Rightarrow> string" where
  "url path config =
     (if get_truthy (use_absolute_urls config)
      then base_url config @ ''/'' @ lstrip ''/'' path
      else ''/'' @ lstrip ''/'' path)"

text \<open>
  \<open>static\<close> looks the file up on disk (\<open>exists\<close> is \<open>os.path.exists\<close>), logs a warning
  when it is not there, and returns the URL in either case: the first component is what
  it logged, the second what it returned.
\<close>

definition static :: "string \<Rightarrow> config \<Rightarrow> (string \<Rightarrow> bool) \<Rightarrow> log_entry list \<times> string" where
  "static path config exists =
     (let static_path = path_join (static_dir config) (lstrip ''/'' path) in
      (if \<not> exists static_path
       then [Warning ''Static file not found''] else [],
       if get_truthy (use_absolute_static config)
       then base_url config @ ''/static/'' @ lstrip ''/'' path
       else ''/static/'' @ lstrip ''/'' path))"

section \<open>Front matter (\<open>front_matter_parser.py\<close>)\<close>

text \<open>
  \<open>json.loads\<close> belongs to the Python library, so the parser takes it as the parameter
  \<open>loads\<close>: \<open>Inr v\<close> when the text decodes to \<open>v\<close>, \<open>Inl e\<close> when it raises \<open>e\<close>. The
  \<open>except\<close> clause of the source catches \<open>JSONDecodeError\<close> and nothing else.

  A log record keeps the level and the fixed part of the message. The first component of
  the result is what the function logged, the second what it returned or raised.
\<close>

definition parse_front_matter ::
  "(string \<Rightarrow> exn + pyval) \<Rightarrow> string \<Rightarrow> log_entry list \<times> (exn + pyval \<times> string)" where
  "parse_front_matter loads content =
     (if startswith content ''+++'' then
        (let parts = split_max ''+++'' 2 content in
         if length parts > 2 then
           (case loads (parts ! 1) of
              Inr front_matter \<Rightarrow>
                ([], Inr (if truthy front_matter then front_matter else PDict [],
                          strip (parts ! 2)))
            | Inl JSONDecodeError \<Rightarrow>
                ([Error ''Error parsing JSON front matter''], Inr (PDict [], content))
            | Inl e \<Rightarrow> ([], Inl e))
         else ([], Inr (PDict [], content)))
      else ([], Inr (PDict [], content)))"

section \<open>The file system as \<open>os.walk\<close> sees it\<close>

text \<open>
  A directory lists its entries in the order \<open>os.scandir\<close> returns them. A file carries
  what reading it gives. \<open>walk root t\<close> is \<open>os.walk(root)\<close> on the tree \<open>t\<close> found at \<open>root\<close>:
  top-down, one pair of the directory's path and its files for each directory, the
  path of a subdirectory being \<open>os.path.join\<close> of its parent's path and its name.
  Walking something that is not a directory yields nothing.
\<close>

datatype 'a fsnode = File 'a | Dir "(string \<times> 'a fsnode) list"

fun files_of :: "(string \<times> 'a fsnode) list \<Rightarrow> (string \<times> 'a) list" where
  "files_of [] = []"
| "files_of ((n, File x) # es) = (n, x) # files_of es"
| "files_of ((n, Dir _) # es) = files_of es"

fun walk :: "string \<Rightarrow> 'a fsnode \<Rightarrow> (string \<times> (string \<times> 'a) list) list" where
  "walk root (File _) = []"
| "walk root (Dir es) =
     (root, files_of es) #
     concat (map (\<lambda>(n, t). case t of File _ \<Rightarrow> [] | Dir _ \<Rightarrow> walk (path_join root n) t) es)"

section \<open>Site data (\<open>load_data_files\<close>)\<close>

text \<open>
  \<open>os.path.splitext\<close>: the extension starts at the last dot of the last path component,
  unless that component has nothing but dots before it.
\<close>

definition rfind :: "char \<Rightarrow> string \<Rightarrow> nat option" where
  "rfind c s = (if c \<in> set s then Some (length s - 1 - length (takeWhile (\<lambda>x. x \<noteq> c) (rev s)))
                else None)"

definition splitext :: "string \<Rightarrow> string \<times> string" where
  "splitext p =
     (case rfind CHR ''.'' p of
        None \<Rightarrow> (p, [])
      | Some dotIndex \<Rightarrow>
          (let filenameIndex = (case rfind CHR ''/'' p of None \<Rightarrow> 0 | Some i \<Rightarrow> i + 1) in
           if filenameIndex \<le> dotIndex \<and>
              filter (\<lambda>c. c \<noteq> CHR ''.'') (take (dotIndex - filenameIndex) (drop filenameIndex p)) \<noteq> []
           then (take dotIndex p, drop dotIndex p)
           else (p, [])))"

text \<open>
  The loop \<open>for key in keys[:-1]: node = node.setdefault(key, {})\<close> followed by the
  guarded \<open>node[keys[-1]] = json.load(f)\<close>, on the dictionary \<open>d\<close>. \<open>loaded\<close> is what
  \<open>json.load\<close> gave (\<open>None\<close> when opening or decoding raised). The result is the updated
  dictionary with a flag telling whether the value was stored; a failure inside the
  \<open>try\<close> block is caught (flag \<open>False\<close>), whereas \<open>setdefault\<close> on a value that is not a
  dictionary raises out of the function.
\<close>

fun store_at :: "string list \<Rightarrow> pyval option \<Rightarrow> pydict \<Rightarrow> exn + bool \<times> pydict" where
  "store_at [] loaded d = Inr (False, d)"
| "store_at [k] loaded d =
     (case loaded of None \<Rightarrow> Inr (False, d) | Some v \<Rightarrow> Inr (True, AList.update k v d))"
| "store_at (k # k' # ks) loaded d =
     (case map_of d k of
        None \<Rightarrow>
          (case store_at (k' # ks) loaded [] of
             Inl e \<Rightarrow> Inl e
           | Inr (ok, d') \<Rightarrow> Inr (ok, AList.update k (PDict d') d))
      | Some (PDict sub) \<Rightarrow>
          (case store_at (k' # ks) loaded sub of
             Inl e \<Rightarrow> Inl e
           | Inr (ok, d') \<Rightarrow> Inr (ok, AList.update k (PDict d') d))
      | Some _ \<Rightarrow> (if ks = [] then Inr (False, d) else Inl AttributeError))"

text \<open>The body of the inner loop, for one file of one directory.\<close>

definition load_data_file ::
  "string \<times> pyval option \<Rightarrow> log_entry list \<times> pydict \<Rightarrow> exn + log_entry list \<times> pydict" where
  "load_data_file f st =
     (case f of (file_name, loaded) \<Rightarrow>
      case st of (logs, data) \<Rightarrow>
      (case splitext file_name of (name, ext) \<Rightarrow>
       if lower ext = ''.json'' then
         (let keys = split_all ''/'' name in
          case store_at keys loaded data of
            Inl e \<Rightarrow> Inl e
          | Inr (ok, data') \<Rightarrow>
              Inr (logs @ [if ok then Info ''Loaded data'' else Error ''Error loading data file''],
                   data'))
       else Inr (logs @ [Warning ''Skipping non-JSON data file''], data)))"

fun load_data_loop ::
  "(string \<times> pyval option) list \<Rightarrow> log_entry list \<times> pydict \<Rightarrow> exn + log_entry list \<times> pydict" where
  "load_data_loop [] st = Inr st"
| "load_data_loop (f # fs) st =
     (case load_data_file f st of Inl e \<Rightarrow> Inl e | Inr st' \<Rightarrow> load_data_loop fs st')"

text \<open>
  \<open>disk p\<close> is the tree at path \<open>p\<close>, \<open>None\<close> when \<open>os.path.exists(p)\<close> is false. The files
  of all walked directories are handled in walk order.
\<close>

definition load_data_files ::
  "config \<Rightarrow> (string \<Rightarrow> pyval option fsnode option) \<Rightarrow> exn + log_entry list \<times> pydict" where
  "load_data_files config disk =
     (case data_dir config of
        None \<Rightarrow> Inr ([Info ''No data directory found or specified''], [])
      | Some dd \<Rightarrow>
          (if dd = [] then Inr ([Info ''No data directory found or specified''], [])
           else case disk dd of
             None \<Rightarrow> Inr ([Info ''No data directory found or specified''], [])
           | Some t \<Rightarrow>
               load_data_loop (concat (map snd (walk dd t))) ([Info ''Loading data files''], [])))"

text \<open>\<open>data[k1][k2]...[kn]\<close>: the value found by following the keys, if there is one.\<close>

fun lookup_path :: "string list \<Rightarrow> pyval \<Rightarrow> pyval option" where
  "lookup_path [] v = Some v"
| "lookup_path (k # ks) (PDict d) =
     (case map_of d k of None \<Rightarrow> None | Some v \<Rightarrow> lookup_path ks v)"
| "lookup_path (k # ks) _ = None"

section \<open>More of \<open>posixpath\<close>: \<open>basename\<close>, \<open>normpath\<close>, \<open>abspath\<close>, \<open>relpath\<close>\<close>

definition basename :: "string \<Rightarrow> string" where
  "basename p = rev (takeWhile (\<lambda>c. c \<noteq> CHR ''/'') (rev p))"

fun join_sep :: "string \<Rightarrow> string list \<Rightarrow> string" where
  "join_sep sep [] = []"
| "join_sep sep [x] = x"
| "join_sep sep (x # y # ys) = x @ sep @ join_sep sep (y # ys)"

text \<open>One round of the loop of \<open>normpath\<close> over the components of the path.\<close>

definition norm_step :: "bool \<Rightarrow> string list \<Rightarrow> string \<Rightarrow> string list" where
  "norm_step initial_slashes new_comps c =
     (if c = [] \<or> c = ''.'' then new_comps
      else if c \<noteq> ''..'' \<or> (\<not> initial_slashes \<and> new_comps = []) \<or>
              (new_comps \<noteq> [] \<and> last new_comps = ''..'')
      then new_comps @ [c]
      else if new_comps \<noteq> [] then butlast new_comps
      else new_comps)"

definition normpath :: "string \<Rightarrow> string" where
  "normpath path =
     (if path = [] then ''.''
      else
        (let initial_slashes =
               (if startswith path ''/''
                then (if startswith path ''//'' \<and> \<not> startswith path ''///'' then 2 else 1)
                else (0::nat));
             comps = split_all ''/'' path;
             new_comps = foldl (norm_step (initial_slashes \<noteq> 0)) [] comps;
             p = replicate initial_slashes CHR ''/'' @ join_sep ''/'' new_comps
         in if p = [] then ''.'' else p))"

text \<open>\<open>cwd\<close> is \<open>os.getcwd()\<close>.\<close>

definition abspath :: "string \<Rightarrow> string \<Rightarrow> string" where
  "abspath cwd path = normpath (if startswith path ''/'' then path else path_join cwd path)"

fun common_prefix :: "'a list \<Rightarrow> 'a list \<Rightarrow> 'a list" where
  "common_prefix (x # xs) (y # ys) = (if x = y then x # common_prefix xs ys else [])"
| "common_prefix _ _ = []"

definition relpath :: "string \<Rightarrow> string \<Rightarrow> string \<Rightarrow> exn + string" where
  "relpath cwd path start =
     (if path = [] then Inl ValueError
      else
        (let start_list = filter (\<lambda>x. x \<noteq> []) (split_all ''/'' (abspath cwd start));
             path_list = filter (\<lambda>x. x \<noteq> []) (split_all ''/'' (abspath cwd path));
             i = length (common_prefix start_list path_list);
             rel_list = replicate (length start_list - i) ''..'' @ drop i path_list
         in case rel_list of
              [] \<Rightarrow> Inr ''.''
            | r # rs \<Rightarrow> Inr (foldl path_join r rs)))"

section \<open>Collections (\<open>load_collections\<close>)\<close>

text \<open>
  A collection item is the dictionary the loader builds, with its six fixed keys. The
  front matter is whatever \<open>parse_front_matter\<close> returned.
\<close>

record item =
  item_path :: string
  item_relative_path :: string
  item_output_path_relative :: string
  item_front_matter :: pyval
  item_content :: string
  item_url :: string

text \<open>
  What the loader needs from outside: the decoder, the working directory, and the
  directory trees of text files (\<open>listing w p\<close> is the tree at \<open>p\<close>, \<open>None\<close> when the path
  does not exist; a file carries its text).
\<close>

record world =
  json_loads :: "string \<Rightarrow> exn + pyval"
  getcwd :: string
  listing :: "string \<Rightarrow> string fsnode option"

text \<open>The body of the inner loop: one file \<open>f\<close> of the walked directory \<open>root\<close>.\<close>

definition load_collection_file ::
  "world \<Rightarrow> config \<Rightarrow> string \<Rightarrow> string \<Rightarrow> string option \<Rightarrow> string \<Rightarrow> string \<times> string \<Rightarrow>
   log_entry list \<times> item list \<Rightarrow> exn + log_entry list \<times> item list" where
  "load_collection_file w config collection_name collection_path output root f st =
     (case f of (file_name, content) \<Rightarrow>
      case st of (logs, items) \<Rightarrow>
      if endswith file_name ''.html'' then
        (let file_path = path_join root file_name in
         case parse_front_matter (json_loads w) content of
           (plogs, Inl e) \<Rightarrow> Inl e
         | (plogs, Inr (front_matter, body_content)) \<Rightarrow>
             (case relpath (getcwd w) file_path collection_path of
                Inl e \<Rightarrow> Inl e
              | Inr relative_path \<Rightarrow>
                  (let output_dir_name = (case output of None \<Rightarrow> collection_name | Some out \<Rightarrow> out);
                       output_file_name = relative_path;
                       item_output_path = path_join output_dir_name output_file_name
                   in Inr (logs @ plogs,
                           items @ [\<lparr>item_path = file_path,
                                     item_relative_path = relative_path,
                                     item_output_path_relative = item_output_path,
                                     item_front_matter = front_matter,
                                     item_content = body_content,
                                     item_url = url item_output_path config\<rparr>]))))
      else Inr st)"

fun load_collection_files ::
  "world \<Rightarrow> config \<Rightarrow> string \<Rightarrow> string \<Rightarrow> string option \<Rightarrow> string \<Rightarrow> (string \<times> string) list \<Rightarrow>
   log_entry list \<times> item list \<Rightarrow> exn + log_entry list \<times> item list" where
  "load_collection_files w config cn cp out root [] st = Inr st"
| "load_collection_files w config cn cp out root (f # fs) st =
     (case load_collection_file w config cn cp out root f st of
        Inl e \<Rightarrow> Inl e
      | Inr st' \<Rightarrow> load_collection_files w config cn cp out root fs st')"

fun load_collection_walk ::
  "world \<Rightarrow> config \<Rightarrow> string \<Rightarrow> string \<Rightarrow> string option \<Rightarrow> (string \<times> (string \<times> string) list) list \<Rightarrow>
   log_entry list \<times> item list \<Rightarrow> exn + log_entry list \<times> item list" where
  "load_collection_walk w config cn cp out [] st = Inr st"
| "load_collection_walk w config cn cp out ((root, files) # ds) st =
     (case load_collection_files w config cn cp out root files st of
        Inl e \<Rightarrow> Inl e
      | Inr st' \<Rightarrow> load_collection_walk w config cn cp out ds st')"

text \<open>
  The outer loop over the configured collections. \<open>collections_data\<close> is a dictionary
  from collection names to item lists, in insertion order.
\<close>

type_synonym collections_data = "(string \<times> item list) list"

fun load_collections_loop ::
  "world \<Rightarrow> config \<Rightarrow> (string \<times> collection_settings) list \<Rightarrow>
   log_entry list \<times> collections_data \<Rightarrow> exn + log_entry list \<times> collections_data" where
  "load_collections_loop w config [] st = Inr st"
| "load_collections_loop w config ((collection_name, collection_settings) # cs) (logs, cd) =
     (case (case c_path collection_settings of
              None \<Rightarrow> None
            | Some collection_path \<Rightarrow>
                (if collection_path = [] then None
                 else map_option (Pair collection_path) (listing w collection_path))) of
        None \<Rightarrow>
          load_collections_loop w config cs (logs @ [Warning ''Collection path not found''], cd)
      | Some (collection_path, t) \<Rightarrow>
          (case load_collection_walk w config collection_name collection_path
                  (c_output collection_settings) (walk collection_path t)
                  (logs @ [Info ''Loading collection''], []) of
             Inl e \<Rightarrow> Inl e
           | Inr (logs', items) \<Rightarrow>
               load_collections_loop w config cs
                 (logs', AList.update collection_name items cd)))"

definition load_collections :: "world \<Rightarrow> config \<Rightarrow> exn + log_entry list \<times> collections_data" where
  "load_collections w config =
     load_collections_loop w config
       (case collections config of None \<Rightarrow> [] | Some cs \<Rightarrow> cs) ([], [])"

section \<open>Rendering (\<open>render_all_content\<close>)\<close>

text \<open>Operations of Python objects that the renderer applies to a front matter.\<close>

fun py_contains :: "pyval \<Rightarrow> string \<Rightarrow> exn + bool" where
  "py_contains (PDict d) k = Inr (map_of d k \<noteq> None)"
| "py_contains (PList xs) k = Inr (PStr k \<in> set xs)"
| "py_contains (PStr s) k = Inr (find_sep k s \<noteq> None)"
| "py_contains _ k = Inl TypeError"

fun py_subscript :: "pyval \<Rightarrow> string \<Rightarrow> exn + pyval" where
  "py_subscript (PDict d) k = (case map_of d k of None \<Rightarrow> Inl KeyError | Some v \<Rightarrow> Inr v)"
| "py_subscript _ k = Inl TypeError"

fun py_get :: "pyval \<Rightarrow> string \<Rightarrow> exn + pyval option" where
  "py_get (PDict d) k = Inr (map_of d k)"
| "py_get _ k = Inl AttributeError"

definition bind_exn :: "exn + 'a \<Rightarrow> ('a \<Rightarrow> exn + 'b) \<Rightarrow> exn + 'b" where
  "bind_exn x f = (case x of Inl e \<Rightarrow> Inl e | Inr v \<Rightarrow> f v)"

text \<open>
  The template context of one item, the compiled template (a function from the context
  to the rendered text, \<open>None\<close> when rendering raises), and what the renderer needs from
  outside: the two ways Jinja makes a template (\<open>None\<close> when it raises), the JSON files
  under the assets directory, and \<open>dict.update\<close> of the Python runtime.
\<close>

record render_context =
  page_front_matter :: pyval
  page_data :: pyval
  page_data_json_urls :: "string list"
  page_content :: "string option"
  page_url :: string
  page_canonical :: string
  page_absolute_final_url :: string
  site_config :: config
  site_data :: pydict
  site_collections :: collections_data

type_synonym template = "render_context \<Rightarrow> string option"

datatype asset = Missing | Loaded pyval | Malformed | Unreadable

record engine =
  from_string :: "string \<Rightarrow> template option"
  get_template :: "pyval \<Rightarrow> template option"
  assets :: "string \<Rightarrow> asset"
  dict_update :: "pyval \<Rightarrow> pyval \<Rightarrow> exn + pyval"

definition load_json_file_from_assets ::
  "engine \<Rightarrow> pyval \<Rightarrow> config \<Rightarrow> exn + log_entry list \<times> pyval" where
  "load_json_file_from_assets eng file_path_relative_to_assets config =
     (case file_path_relative_to_assets of
        PStr s \<Rightarrow>
          (let full_path = path_join (assets_dir config) (lstrip ''/'' s) in
           case assets eng full_path of
             Missing \<Rightarrow> Inr ([Warning ''Page data asset file not found''], PDict [])
           | Loaded v \<Rightarrow> Inr ([], v)
           | Malformed \<Rightarrow> Inr ([Error ''Error decoding JSON from page data asset file''], PDict [])
           | Unreadable \<Rightarrow> Inr ([Error ''Error reading page data asset file''], PDict []))
      | _ \<Rightarrow> Inl AttributeError)"

fun url_of :: "pyval \<Rightarrow> config \<Rightarrow> exn + string" where
  "url_of (PStr s) config = Inr (url s config)"
| "url_of _ config = Inl AttributeError"

text \<open>The loop over \<open>data_files\<close>: merge each file into the page data, collect its URL.\<close>

fun load_page_data_files ::
  "engine \<Rightarrow> config \<Rightarrow> pyval list \<Rightarrow> log_entry list \<times> pyval \<times> string list \<Rightarrow>
   exn + log_entry list \<times> pyval \<times> string list" where
  "load_page_data_files eng config [] st = Inr st"
| "load_page_data_files eng config (df_path # dfs) (logs, pdata, data_json_urls) =
     bind_exn (load_json_file_from_assets eng df_path config) (\<lambda>(l, v).
     bind_exn (dict_update eng pdata v) (\<lambda>pdata'.
     bind_exn (url_of df_path config) (\<lambda>u.
     load_page_data_files eng config dfs (logs @ l, pdata', data_json_urls @ [u]))))"

text \<open>The \<open>data_file\<close> / \<open>data_files\<close> block, the same in both loops.\<close>

definition resolve_page_data ::
  "engine \<Rightarrow> config \<Rightarrow> pyval \<Rightarrow> exn + log_entry list \<times> pyval \<times> string list" where
  "resolve_page_data eng config front_matter =
     bind_exn (py_contains front_matter ''data_file'') (\<lambda>has_file.
     if has_file then
       bind_exn (py_subscript front_matter ''data_file'') (\<lambda>p.
       bind_exn (load_json_file_from_assets eng p config) (\<lambda>(l, pdata).
       bind_exn (url_of p config) (\<lambda>u. Inr (l, pdata, [u]))))
     else
       bind_exn (py_contains front_matter ''data_files'') (\<lambda>has_files.
       if has_files then
         bind_exn (py_subscript front_matter ''data_files'') (\<lambda>dfs.
         case dfs of
           PList xs \<Rightarrow> load_page_data_files eng config xs ([], PDict [], [])
         | _ \<Rightarrow> Inr ([], PDict [], []))
       else Inr ([], PDict [], [])))"

text \<open>
  The state of a build: the files written so far (path and text), the Rendered Page
  Records, and the hooks fired and lines logged, in order. A hook is recorded with its
  name and the paths it is passed; what a plugin does in a hook is outside the model.
\<close>

record page_info =
  pi_source_path :: string
  pi_output_path :: string
  pi_url :: string
  pi_front_matter :: pyval
  pi_content :: string

datatype event = Hook string "string list" | Log log_entry

record build_state =
  files :: "(string \<times> string) list"
  rendered_pages_info :: "page_info list"
  events :: "event list"

definition emit :: "event list \<Rightarrow> build_state \<Rightarrow> build_state" where
  "emit es st = st\<lparr>events := events st @ es\<rparr>"

definition render_and_save_output ::
  "world \<Rightarrow> config \<Rightarrow> template \<Rightarrow> render_context \<Rightarrow> string \<Rightarrow> string \<Rightarrow> string \<Rightarrow> build_state \<Rightarrow>
   exn + build_state \<times> page_info option" where
  "render_and_save_output w config template_obj ctx output_path source_file_path
       content_for_sitemap_rss st =
     (case template_obj ctx of
        None \<Rightarrow> Inr (emit [Log (Error ''Error rendering template'')] st, None)
      | Some output \<Rightarrow>
          bind_exn (relpath (getcwd w) output_path (output_dir config)) (\<lambda>rel.
          Inr (emit [Log (Info ''Rendered'')]
                 (st\<lparr>files := AList.update output_path output (files st)\<rparr>),
               Some \<lparr>pi_source_path = source_file_path,
                     pi_output_path = output_path,
                     pi_url = url rel config,
                     pi_front_matter = page_front_matter ctx,
                     pi_content = content_for_sitemap_rss\<rparr>)))"

text \<open>\<open>if page_info: rendered_pages_info.append(page_info)\<close>, then the closing hook.\<close>

definition finish_item :: "string \<Rightarrow> string \<Rightarrow> build_state \<times> page_info option \<Rightarrow> build_state" where
  "finish_item page_source_path output_path r =
     (case r of (st, page_info) \<Rightarrow>
      emit [Hook ''after_render_page'' [page_source_path, output_path]]
        (case page_info of
           None \<Rightarrow> st
         | Some pinfo \<Rightarrow> st\<lparr>rendered_pages_info := rendered_pages_info st @ [pinfo]\<rparr>))"

text \<open>
  The dictionary \<open>context\<close> that both loops build: the \<open>page\<close> entries and the \<open>site\<close>
  global. Only a collection item has a \<open>content\<close> entry.
\<close>

definition make_context ::
  "config \<Rightarrow> pydict \<Rightarrow> collections_data \<Rightarrow> pyval \<Rightarrow> pyval \<Rightarrow> string list \<Rightarrow> string option \<Rightarrow>
   string \<Rightarrow> render_context" where
  "make_context config sdata cdata front_matter pdata data_json_urls body output_relative_path =
     \<lparr>page_front_matter = front_matter,
      page_data = pdata,
      page_data_json_urls = data_json_urls,
      page_content = body,
      page_url = url output_relative_path config,
      page_canonical = base_url config @ ''/'' @ lstrip ''/'' output_relative_path,
      page_absolute_final_url = url output_relative_path config,
      site_config = config,
      site_data = sdata,
      site_collections = cdata\<rparr>"

text \<open>The body of the loop over the files of one walked directory of \<open>pages_dir\<close>.\<close>

definition render_page ::
  "world \<Rightarrow> engine \<Rightarrow> config \<Rightarrow> pydict \<Rightarrow> collections_data \<Rightarrow> string \<Rightarrow> string \<times> string \<Rightarrow>
   build_state \<Rightarrow> exn + build_state" where
  "render_page w eng config sdata cdata root f st =
     (case f of (page_file, full_file_content) \<Rightarrow>
      if endswith page_file ''.html'' then
        (let page_source_path = path_join root page_file in
         bind_exn (relpath (getcwd w) page_source_path (pages_dir config)) (\<lambda>output_relative_path.
         let output_path = path_join (output_dir config) output_relative_path;
             st1 = emit [Hook ''before_render_page'' [page_source_path]] st
         in case parse_front_matter (json_loads w) full_file_content of
              (plogs, Inl e) \<Rightarrow> Inl e
            | (plogs, Inr (front_matter, body_content_after_fm)) \<Rightarrow>
                bind_exn (resolve_page_data eng config front_matter) (\<lambda>(dlogs, pdata, data_json_urls).
                let st2 = emit (map Log (plogs @ dlogs)) st1 in
                case from_string eng body_content_after_fm of
                  None \<Rightarrow> Inr (emit [Log (Error ''Error creating template from string'')] st2)
                | Some template_obj \<Rightarrow>
                    (let ctx = make_context config sdata cdata front_matter pdata
                                 data_json_urls None output_relative_path
                     in bind_exn (render_and_save_output w config template_obj ctx output_path
                                    page_source_path body_content_after_fm st2)
                          (\<lambda>r. Inr (finish_item page_source_path output_path r))))))
      else Inr st)"

fun render_page_files ::
  "world \<Rightarrow> engine \<Rightarrow> config \<Rightarrow> pydict \<Rightarrow> collections_data \<Rightarrow> string \<Rightarrow> (string \<times> string) list \<Rightarrow>
   build_state \<Rightarrow> exn + build_state" where
  "render_page_files w eng config sdata cdata root [] st = Inr st"
| "render_page_files w eng config sdata cdata root (f # fs) st =
     bind_exn (render_page w eng config sdata cdata root f st)
       (render_page_files w eng config sdata cdata root fs)"

fun render_pages_walk ::
  "world \<Rightarrow> engine \<Rightarrow> config \<Rightarrow> pydict \<Rightarrow> collections_data \<Rightarrow>
   (string \<times> (string \<times> string) list) list \<Rightarrow> build_state \<Rightarrow> exn + build_state" where
  "render_pages_walk w eng config sdata cdata [] st = Inr st"
| "render_pages_walk w eng config sdata cdata ((root, fs) # ds) st =
     bind_exn (render_page_files w eng config sdata cdata root fs st)
       (render_pages_walk w eng config sdata cdata ds)"

text \<open>\<open>config["collections"][collection_name]["output"]\<close>: each subscript may fail.\<close>

definition collection_output :: "config \<Rightarrow> string \<Rightarrow> exn + string" where
  "collection_output config collection_name =
     (case collections config of
        None \<Rightarrow> Inl KeyError
      | Some cs \<Rightarrow>
          (case map_of cs collection_name of
             None \<Rightarrow> Inl KeyError
           | Some settings \<Rightarrow>
               (case c_output settings of None \<Rightarrow> Inl KeyError | Some out \<Rightarrow> Inr out)))"

text \<open>The body of the loop over the items of the collection \<open>collection_name\<close>.\<close>

definition render_item ::
  "world \<Rightarrow> engine \<Rightarrow> config \<Rightarrow> pydict \<Rightarrow> collections_data \<Rightarrow> string \<Rightarrow> item \<Rightarrow>
   build_state \<Rightarrow> exn + build_state" where
  "render_item w eng config sdata cdata collection_name it st =
     (let page_source_path = item_path it in
      bind_exn (collection_output config collection_name) (\<lambda>out.
      let output_relative_path = path_join out (basename page_source_path);
          output_path = path_join (output_dir config) output_relative_path;
          st1 = emit [Hook ''before_render_page'' [page_source_path]] st
      in bind_exn (py_get (item_front_matter it) ''layout'') (\<lambda>layout.
         if \<not> get_truthy layout
         then Inr (emit [Log (Warning ''Collection item has no layout'')] st1)
         else
           bind_exn (resolve_page_data eng config (item_front_matter it)) (\<lambda>(dlogs, pdata, data_json_urls).
           let st2 = emit (map Log dlogs) st1 in
           case get_template eng (case layout of None \<Rightarrow> PNone | Some v \<Rightarrow> v) of
             None \<Rightarrow> Inr (emit [Log (Error ''Error loading layout template'')] st2)
           | Some template_obj \<Rightarrow>
               (let ctx = make_context config sdata cdata (item_front_matter it) pdata
                            data_json_urls (Some (item_content it)) output_relative_path
                in bind_exn (render_and_save_output w config template_obj ctx output_path
                               page_source_path (item_content it) st2)
                     (\<lambda>r. Inr (finish_item page_source_path output_path r)))))))"

fun render_items ::
  "world \<Rightarrow> engine \<Rightarrow> config \<Rightarrow> pydict \<Rightarrow> collections_data \<Rightarrow> string \<Rightarrow> item list \<Rightarrow>
   build_state \<Rightarrow> exn + build_state" where
  "render_items w eng config sdata cdata cn [] st = Inr st"
| "render_items w eng config sdata cdata cn (it # its) st =
     bind_exn (render_item w eng config sdata cdata cn it st)
       (render_items w eng config sdata cdata cn its)"

fun render_collections ::
  "world \<Rightarrow> engine \<Rightarrow> config \<Rightarrow> pydict \<Rightarrow> collections_data \<Rightarrow> collections_data \<Rightarrow>
   build_state \<Rightarrow> exn + build_state" where
  "render_collections w eng config sdata cdata [] st = Inr st"
| "render_collections w eng config sdata cdata ((cn, its) # cs) st =
     bind_exn (render_items w eng config sdata cdata cn its
                 (emit [Log (Info ''Rendering collection items'')] st))
       (render_collections w eng config sdata cdata cs)"

definition render_all_content ::
  "world \<Rightarrow> engine \<Rightarrow> config \<Rightarrow> pydict \<Rightarrow> collections_data \<Rightarrow> exn + build_state" where
  "render_all_content w eng config sdata cdata =
     bind_exn
       (render_pages_walk w eng config sdata cdata
          (case listing w (pages_dir config) of
             None \<Rightarrow> []
           | Some t \<Rightarrow> walk (pages_dir config) t)
          \<lparr>files = [], rendered_pages_info = [],
           events = [Log (Info ''Rendering regular pages'')]\<rparr>)
       (render_collections w eng config sdata cdata cdata)"

section \<open>The feed (\<open>generate_rss_feed\<close>)\<close>

text \<open>
  \<open>strptime_ymd s\<close> is \<open>datetime.datetime.strptime(s, "%Y-%m-%d")\<close>, with \<open>None\<close> for
  \<open>ValueError\<close>. The library compiles the format to a pattern that the whole text has
  to match: four digits, a dash, a month written \<open>1[0-2]\<close>, \<open>0[1-9]\<close> or \<open>[1-9]\<close>, a
  dash, and a day written \<open>3[0-1]\<close>, \<open>[1-2]\d\<close>, \<open>0[1-9]\<close>, \<open>[1-9]\<close> or a space and
  \<open>[1-9]\<close>. The date must exist: there is no year 0 and no 30 February. The result is
  the number of days from \<open>datetime.min\<close>, the first of January of the year 1.
\<close>

definition digit :: "char \<Rightarrow> nat option" where
  "digit c = (let n = (of_char c :: nat) in if 48 \<le> n \<and> n \<le> 57 then Some (n - 48) else None)"

fun month_of :: "string \<Rightarrow> nat option" where
  "month_of [a, b] =
     (case (digit a, digit b) of
        (Some x, Some y) \<Rightarrow>
          (if x = 1 \<and> y \<le> 2 then Some (10 + y)
           else if x = 0 \<and> 1 \<le> y then Some y
           else None)
      | _ \<Rightarrow> None)"
| "month_of [a] = (case digit a of Some x \<Rightarrow> (if 1 \<le> x then Some x else None) | None \<Rightarrow> None)"
| "month_of _ = None"

fun day_of :: "string \<Rightarrow> nat option" where
  "day_of [a, b] =
     (case digit b of
        None \<Rightarrow> None
      | Some y \<Rightarrow>
          (case digit a of
             Some x \<Rightarrow>
               (if x = 3 \<and> y \<le> 1 then Some (30 + y)
                else if x = 1 \<or> x = 2 then Some (10 * x + y)
                else if x = 0 \<and> 1 \<le> y then Some y
                else None)
           | None \<Rightarrow> (if a = CHR '' '' \<and> 1 \<le> y then Some y else None)))"
| "day_of [a] = (case digit a of Some x \<Rightarrow> (if 1 \<le> x then Some x else None) | None \<Rightarrow> None)"
| "day_of _ = None"

definition is_leap :: "nat \<Rightarrow> bool" where
  "is_leap y = (y mod 4 = 0 \<and> (y mod 100 \<noteq> 0 \<or> y mod 400 = 0))"

definition days_in_month :: "nat \<Rightarrow> nat \<Rightarrow> nat" where
  "days_in_month y m =
     (if m = 2 then (if is_leap y then 29 else 28)
      else if m = 4 \<or> m = 6 \<or> m = 9 \<or> m = 11 then 30
      else 31)"

definition days_before_month :: "nat \<Rightarrow> nat \<Rightarrow> nat" where
  "days_before_month y m =
     [0, 31, 59, 90, 120, 151, 181, 212, 243, 273, 304, 334] ! (m - 1)
     + (if 2 < m \<and> is_leap y then 1 else 0)"

definition days_before_year :: "nat \<Rightarrow> nat" where
  "days_before_year y = 365 * (y - 1) + (y - 1) div 4 - (y - 1) div 100 + (y - 1) div 400"

definition strptime_ymd :: "string \<Rightarrow> nat option" where
  "strptime_ymd s =
     (case s of
        y1 # y2 # y3 # y4 # dash # rest \<Rightarrow>
          (case (digit y1, digit y2, digit y3, digit y4) of
             (Some a, Some b, Some c, Some d) \<Rightarrow>
               (if dash = CHR ''-'' then
                  (case find_sep ''-'' rest of
                     Some (mt, dt) \<Rightarrow>
                       (case (month_of mt, day_of dt) of
                          (Some m, Some dd) \<Rightarrow>
                            (let y = 1000 * a + 100 * b + 10 * c + d in
                             if 1 \<le> y \<and> dd \<le> days_in_month y m
                             then Some (days_before_year y + days_before_month y m + dd - 1)
                             else None)
                        | _ \<Rightarrow> None)
                   | None \<Rightarrow> None)
                else None)
           | _ \<Rightarrow> None)
      | _ \<Rightarrow> None)"

fun map_exn :: "('a \<Rightarrow> exn + 'b) \<Rightarrow> 'a list \<Rightarrow> exn + 'b list" where
  "map_exn f [] = Inr []"
| "map_exn f (x # xs) =
     bind_exn (f x) (\<lambda>y. bind_exn (map_exn f xs) (\<lambda>ys. Inr (y # ys)))"

text \<open>
  The first loop: a post whose \<open>date\<close> is a non-empty text gets \<open>_date_obj\<close> stored in
  its front matter, the parsed date or \<open>datetime.min\<close> when the text does not parse.
\<close>

definition annotate_date :: "item \<Rightarrow> exn + item" where
  "annotate_date post =
     bind_exn (py_get (item_front_matter post) ''date'') (\<lambda>date_str.
     case date_str of
       Some (PStr ds) \<Rightarrow>
         (if ds \<noteq> [] then
            (case item_front_matter post of
               PDict d \<Rightarrow>
                 Inr (post\<lparr>item_front_matter :=
                        PDict (AList.update ''_date_obj''
                                 (case strptime_ymd ds of
                                    Some dt \<Rightarrow> PDatetime dt
                                  | None \<Rightarrow> PDatetime datetime_min) d)\<rparr>)
             | _ \<Rightarrow> Inl TypeError)
          else Inr post)
     | _ \<Rightarrow> Inr post)"

text \<open>The sort key: \<open>x['front_matter'].get('_date_obj', datetime.datetime.min)\<close>.\<close>

definition date_key :: "item \<Rightarrow> exn + pyval" where
  "date_key x =
     bind_exn (py_get (item_front_matter x) ''_date_obj'') (\<lambda>v.
     Inr (case v of None \<Rightarrow> PDatetime datetime_min | Some d \<Rightarrow> d))"

fun is_datetime :: "pyval \<Rightarrow> bool" where
  "is_datetime (PDatetime _) = True"
| "is_datetime _ = False"

fun datetime_of :: "pyval \<Rightarrow> nat" where
  "datetime_of (PDatetime d) = d"
| "datetime_of _ = 0"

text \<open>
  \<open>sorted(xs, key=..., reverse=True)\<close> on the list of keys paired with their elements.
  Python reverses the list, sorts it stably in ascending order and reverses the result.
  Up to one element nothing is compared. Comparing a datetime with anything that is not
  one raises \<open>TypeError\<close>, and a sort of two or more elements has to compare across the
  two kinds when both occur. How Python orders keys none of which is a datetime is the
  parameter \<open>sorted_other\<close>.
\<close>

definition py_sorted_reverse ::
  "((pyval \<times> 'a) list \<Rightarrow> exn + 'a list) \<Rightarrow> (pyval \<times> 'a) list \<Rightarrow> exn + 'a list" where
  "py_sorted_reverse sorted_other kxs =
     (if length kxs \<le> 1 then Inr (map snd kxs)
      else if list_all (\<lambda>kx. is_datetime (fst kx)) kxs
      then Inr (map snd (rev (sort_key (\<lambda>kx. datetime_of (fst kx)) (rev kxs))))
      else if list_ex (\<lambda>kx. is_datetime (fst kx)) kxs then Inl TypeError
      else sorted_other kxs)"

record rss_item =
  rss_title :: pyval
  rss_link :: string
  rss_guid :: string
  rss_pubDate :: "nat option"
  rss_description :: pyval

text \<open>
  The body of the second loop: the entry of one post. \<open>rss_pubDate\<close> is the date that
  is printed, \<open>None\<close> when the element is left out.
\<close>

definition rss_entry :: "item \<Rightarrow> exn + rss_item" where
  "rss_entry post =
     bind_exn (py_get (item_front_matter post) ''title'') (\<lambda>title.
     bind_exn (py_get (item_front_matter post) ''_date_obj'') (\<lambda>pub_date_obj.
     bind_exn (py_get (item_front_matter post) ''description'') (\<lambda>description.
     Inr \<lparr>rss_title = (case title of None \<Rightarrow> PStr ''No Title'' | Some t \<Rightarrow> t),
          rss_link = item_url post,
          rss_guid = item_url post,
          rss_pubDate = (case pub_date_obj of Some (PDatetime dt) \<Rightarrow> Some dt | _ \<Rightarrow> None),
          rss_description =
            (case description of
               Some v \<Rightarrow> v
             | None \<Rightarrow>
                 PStr (if length (item_content post) > 200
                       then take 200 (item_content post) @ ''...''
                       else item_content post))\<rparr>)))"

text \<open>
  The element tree: the texts of the channel, the \<open>href\<close> of its \<open>atom:link\<close>, and its
  items. The build time stamp is left out.
\<close>

record rss_feed =
  feed_title :: pyval
  feed_link :: string
  feed_description :: pyval
  feed_atom_href :: string
  feed_items :: "rss_item list"

text \<open>
  Printing the tree. \<open>tostring\<close> writes a text only if it is truthy, and raises
  \<open>TypeError\<close> for a truthy value that is not a text. \<open>minidom.parseString\<close> then reads
  the document back and raises \<open>ExpatError\<close> when a text holds a character that XML
  does not allow: below 256 these are the control characters other than tab, line feed
  and carriage return. Neither call is guarded. When both succeed the document is
  written; the document is represented by the tree it prints.
\<close>

definition xml_texts :: "rss_feed \<Rightarrow> pyval list" where
  "xml_texts rss =
     [feed_title rss, PStr (feed_link rss), feed_description rss, PStr (feed_atom_href rss)]
     @ concat (map (\<lambda>e. [rss_title e, PStr (rss_link e), PStr (rss_guid e), rss_description e])
                 (feed_items rss))"

fun text_serialisable :: "pyval \<Rightarrow> bool" where
  "text_serialisable (PStr s) = True"
| "text_serialisable v = (\<not> truthy v)"

definition xml_char :: "char \<Rightarrow> bool" where
  "xml_char c = (let n = (of_char c :: nat) in 32 \<le> n \<or> n = 9 \<or> n = 10 \<or> n = 13)"

fun text_well_formed :: "pyval \<Rightarrow> bool" where
  "text_well_formed (PStr s) = list_all xml_char s"
| "text_well_formed v = True"

definition pretty_xml :: "rss_feed \<Rightarrow> exn + rss_feed" where
  "pretty_xml rss =
     (if \<not> list_all text_serialisable (xml_texts rss) then Inl TypeError
      else if \<not> list_all text_well_formed (xml_texts rss) then Inl ExpatError
      else Inr rss)"

text \<open>
  The generator. \<open>None\<close> is the early return when there is no \<open>posts\<close> collection or it
  is empty; otherwise the result is the path of the file written and the document in
  it. \<open>open_w p\<close> is \<open>open(p, 'w', encoding='utf-8')\<close>, which raises when the file cannot
  be opened, for instance when its directory does not exist; this call is not guarded
  either. The hooks around the generator and its log lines are left out.
\<close>

definition generate_rss_feed ::
  "((pyval \<times> item) list \<Rightarrow> exn + item list) \<Rightarrow> (string \<Rightarrow> exn + unit) \<Rightarrow> config \<Rightarrow>
   collections_data \<Rightarrow> exn + (string \<times> rss_feed) option" where
  "generate_rss_feed sorted_other open_w config cdata =
     (let posts = (case map_of cdata ''posts'' of None \<Rightarrow> [] | Some ps \<Rightarrow> ps) in
      if posts = [] then Inr None
      else
        bind_exn (map_exn annotate_date posts) (\<lambda>posts'.
        bind_exn (map_exn date_key posts') (\<lambda>keys.
        bind_exn (py_sorted_reverse sorted_other (zip keys posts')) (\<lambda>posts_sorted.
        bind_exn (map_exn rss_entry (take 10 posts_sorted)) (\<lambda>entries.
        let rss = \<lparr>feed_title =
                     (case site_title config of None \<Rightarrow> PStr ''My Static Site'' | Some t \<Rightarrow> t),
                   feed_link = base_url config,
                   feed_description =
                     (case site_description config of
                        None \<Rightarrow> PStr ''A static site generated with Python.''
                      | Some t \<Rightarrow> t),
                   feed_atom_href = base_url config @ ''/feed.xml'',
                   feed_items = entries\<rparr>;
            rss_path = path_join (output_dir config) ''feed.xml''
        in bind_exn (pretty_xml rss) (\<lambda>doc.
           bind_exn (open_w rss_path) (\<lambda>f. Inr (Some (rss_path, doc)))))))))"

text \<open>
  The notions of the specification. A field of the front matter; the date a post is
  sorted by, which is the \<open>date\<close> of its front matter when that is a non-empty text that
  parses, and the oldest date when the field is missing or does not parse; the strict
  form \<open>YYYY-MM-DD\<close> of a date, four digits, two digits and two digits; and the
  description of a post in the feed.
\<close>

definition front_matter_field :: "item \<Rightarrow> string \<Rightarrow> pyval option" where
  "front_matter_field p k = (case item_front_matter p of PDict d \<Rightarrow> map_of d k | _ \<Rightarrow> None)"

definition has_text_date :: "item \<Rightarrow> bool" where
  "has_text_date p =
     (case front_matter_field p ''date'' of Some (PStr ds) \<Rightarrow> ds \<noteq> [] | _ \<Rightarrow> False)"

definition spec_post_date :: "item \<Rightarrow> nat" where
  "spec_post_date p =
     (case front_matter_field p ''date'' of
        Some (PStr ds) \<Rightarrow> (case strptime_ymd ds of Some dt \<Rightarrow> dt | None \<Rightarrow> datetime_min)
      | _ \<Rightarrow> datetime_min)"


definition spec_description :: "item \<Rightarrow> pyval" where
  "spec_description p =
     (case front_matter_field p ''description'' of
        Some v \<Rightarrow> v
      | None \<Rightarrow>
          PStr (if 200 < length (item_content p)
                then take 200 (item_content p) @ ''...''
                else item_content p))"


text \<open>
  The name of a directory entry: not empty, without a separator, and neither \<open>.\<close> nor
  \<open>..\<close>. \<open>plain_tree\<close> says that all names in a tree are of this kind, as the names
  that \<open>os.scandir\<close> returns are. \<open>path_components\<close> is the list
  \<open>[x for x in p.split(sep) if x]\<close>.
\<close>

definition plain_name :: "string \<Rightarrow> bool" where
  "plain_name n = (n \<noteq> [] \<and> CHR ''/'' \<notin> set n \<and> n \<noteq> ''.'' \<and> n \<noteq> ''..'')"

fun plain_tree :: "'a fsnode \<Rightarrow> bool" where
  "plain_tree (File _) = True"
| "plain_tree (Dir es) = list_all (\<lambda>(n, t). plain_name n \<and> plain_tree t) es"

definition path_components :: "string \<Rightarrow> string list" where
  "path_components p = filter (\<lambda>x. x \<noteq> []) (split_all ''/'' p)"

section \<open>Example inputs\<close>

text \<open>Concrete configurations, decoders and trees, used where a statement is evaluated.\<close>

definition sample_config :: config where
  "sample_config =
     \<lparr>pages_dir = ''pages'', templates_dir = ''templates'', static_dir = ''static'',
      assets_dir = ''assets'', output_dir = ''output'', base_url = ''http://e'',
      data_dir = Some ''_data'',
      collections = Some [(''posts'', \<lparr>c_path = Some ''posts'', c_output = Some ''blog''\<rparr>)],
      use_absolute_urls = Some (PBool True), use_absolute_static = None,
      site_title = None, site_description = None\<rparr>"

definition no_files :: "string \<Rightarrow> bool" where
  "no_files p = False"

text \<open>
  A decoder that agrees with \<open>json.loads\<close> on the five texts the examples decode;
  every other text the examples hand it is malformed JSON.
\<close>

definition sample_loads :: "string \<Rightarrow> exn + pyval" where
  \<open>sample_loads s =
     (if s = ''{}'' then Inr (PDict [])
      else if s = ''[1]'' then Inr (PList [PInt 1])
      else if s = ''{"title": "Hello"}'' then Inr (PDict [(''title'', PStr ''Hello'')])
      else if s = ''{"layout": "post.html"}'' then Inr (PDict [(''layout'', PStr ''post.html'')])
      else if s = ''{"layout": "gone.html"}'' then Inr (PDict [(''layout'', PStr ''gone.html'')])
      else Inl JSONDecodeError)\<close>

text \<open>
  The decoder at its limits: \<open>json.loads\<close> raises \<open>RecursionError\<close> on a text of 100000
  opening brackets, which nests deeper than the interpreter allows, and \<open>ValueError\<close> on
  a number of 5000 digits, which is valid JSON but has more than the 4300 digits that
  the conversion of a text to an integer accepts.
\<close>

definition sample_loads_limits :: "string \<Rightarrow> exn + pyval" where
  "sample_loads_limits s =
     (if 100000 \<le> length s \<and> list_all (\<lambda>c. c = CHR ''['') s then Inl RecursionError
      else if 4300 < length s \<and> list_all (\<lambda>c. c = CHR ''1'') s then Inl ValueError
      else sample_loads s)"

text \<open>
  A data directory \<open>_data\<close> with a JSON file, a text file and a subdirectory \<open>authors\<close>
  that holds the JSON file \<open>jane.json\<close>, whose content is the number 1.
\<close>

definition sample_data_disk :: "string \<Rightarrow> pyval option fsnode option" where
  "sample_data_disk p =
     (if p = ''_data''
      then Some (Dir [(''site.json'', File (Some (PStr ''top''))),
                      (''notes.txt'', File None),
                      (''authors'', Dir [(''jane.json'', File (Some (PInt 1)))])])
      else None)"

text \<open>
  A small site. Of the three pages, \<open>draft.html\<close> does not compile and \<open>crash.html\<close>
  compiles to a template that raises when rendered. Of the posts, \<open>bare.html\<close> has no
  front matter, the layout of \<open>lost.html\<close> cannot be loaded, and \<open>deep.html\<close> lies in a
  subdirectory. The layout \<open>boom.html\<close> loads and raises when rendered.
\<close>

definition sample_world :: world where
  \<open>sample_world =
     \<lparr>json_loads = sample_loads,
      getcwd = ''/site'',
      listing = (\<lambda>p.
        if p = ''pages''
        then Some (Dir [(''index.html'', File ''<h1>Home</h1>''),
                        (''draft.html'', File ''{% if %}''),
                        (''crash.html'', File ''{{ 1/0 }}'')])
        else if p = ''posts''
        then Some (Dir [(''first.html'', File ''+++{"layout": "post.html"}+++Hello''),
                        (''bare.html'', File ''no layout here''),
                        (''lost.html'', File ''+++{"layout": "gone.html"}+++Text''),
                        (''2024'', Dir [(''deep.html'', File ''+++{"layout": "post.html"}+++Deep'')])])
        else None)\<rparr>\<close>

definition sample_engine :: engine where
  "sample_engine =
     \<lparr>from_string = (\<lambda>body.
        if body = ''{% if %}'' then None
        else if body = ''{{ 1/0 }}'' then Some (\<lambda>ctx. None)
        else Some (\<lambda>ctx. Some body)),
      get_template = (\<lambda>name.
        if name = PStr ''post.html''
        then Some (\<lambda>ctx. Some (case page_content ctx of None \<Rightarrow> [] | Some c \<Rightarrow> ''<p>'' @ c @ ''</p>''))
        else if name = PStr ''boom.html'' then Some (\<lambda>ctx. None)
        else None),
      assets = (\<lambda>p. Missing),
      dict_update = (\<lambda>a b. Inr b)\<rparr>"

text \<open>The collections that \<open>load_collections\<close> finds in this site.\<close>

definition sample_collections :: collections_data where
  "sample_collections =
     [(''posts'',
       [\<lparr>item_path = ''posts/first.html'', item_relative_path = ''first.html'',
         item_output_path_relative = ''blog/first.html'',
         item_front_matter = PDict [(''layout'', PStr ''post.html'')],
         item_content = ''Hello'', item_url = ''http://e/blog/first.html''\<rparr>,
        \<lparr>item_path = ''posts/bare.html'', item_relative_path = ''bare.html'',
         item_output_path_relative = ''blog/bare.html'',
         item_front_matter = PDict [], item_content = ''no layout here'',
         item_url = ''http://e/blog/bare.html''\<rparr>,
        \<lparr>item_path = ''posts/lost.html'', item_relative_path = ''lost.html'',
         item_output_path_relative = ''blog/lost.html'',
         item_front_matter = PDict [(''layout'', PStr ''gone.html'')],
         item_content = ''Text'', item_url = ''http://e/blog/lost.html''\<rparr>,
        \<lparr>item_path = ''posts/2024/deep.html'', item_relative_path = ''2024/deep.html'',
         item_output_path_relative = ''blog/2024/deep.html'',
         item_front_matter = PDict [(''layout'', PStr ''post.html'')],
         item_content = ''Deep'', item_url = ''http://e/blog/2024/deep.html''\<rparr>])]"

text \<open>A build state with one page rendered, and an item with the raising layout.\<close>

definition sample_state :: build_state where
  "sample_state =
     \<lparr>files = [(''output/index.html'', ''<h1>Home</h1>'')],
      rendered_pages_info =
        [\<lparr>pi_source_path = ''pages/index.html'', pi_output_path = ''output/index.html'',
          pi_url = ''http://e/index.html'', pi_front_matter = PDict [],
          pi_content = ''<h1>Home</h1>''\<rparr>],
      events = [Log (Info ''Rendering regular pages'')]\<rparr>"

definition boom_item :: item where
  "boom_item =
     \<lparr>item_path = ''posts/boom.html'', item_relative_path = ''boom.html'',
      item_output_path_relative = ''blog/boom.html'',
      item_front_matter = PDict [(''layout'', PStr ''boom.html'')],
      item_content = ''Bang'', item_url = ''http://e/blog/boom.html''\<rparr>"












section \<open>The URL helpers\<close>

lemma lstrip_replicate: "\<exists>n. p = replicate n c @ lstrip [c] p"
proof (induction p)
  case Nil
  show ?case by (simp add: lstrip_def)
next
  case (Cons a p)
  show ?case
  proof (cases "a = c")
    case True
    from Cons obtain n where "p = replicate n c @ lstrip [c] p" by blast
    then have "a # p = replicate (Suc n) c @ lstrip [c] (a # p)"
      using True by (simp add: lstrip_def)
    then show ?thesis by blast
  next
    case False
    then have "a # p = replicate 0 c @ lstrip [c] (a # p)" by (simp add: lstrip_def)
    then show ?thesis by blast
  qed
qed

lemma lstrip_not_startswith: "\<not> startswith (lstrip [c] p) [c]"
  by (induction p) (auto simp: lstrip_def startswith_def)

lemma lstrip_slash_cons: "lstrip ''/'' (''/'' @ p) = lstrip ''/'' p"
  by (simp add: lstrip_def)

text \<open>
  Claim C9. \<open>url\<close> returns the base URL, a slash and the path without its leading slashes
  when absolute URLs are switched on, and a slash and the path without its leading
  slashes otherwise. What is cut off is a run of slashes and what remains does not start
  with one, so one more leading slash on the input changes nothing.
\<close>

theorem url_leading_slash_insensitive:
  "url p c = (if get_truthy (use_absolute_urls c)
              then base_url c @ ''/'' @ lstrip ''/'' p
              else ''/'' @ lstrip ''/'' p)
   \<and> (\<exists>n. p = replicate n CHR ''/'' @ lstrip ''/'' p)
   \<and> \<not> startswith (lstrip ''/'' p) ''/''
   \<and> url (''/'' @ p) c = url p c"
  using lstrip_replicate [of p "CHR ''/''"] lstrip_not_startswith [of "CHR ''/''" p]
  by (simp add: url_def lstrip_slash_cons del: append.simps)

text \<open>
  Claim C9, at the two examples of the specification: \<open>url("/x")\<close> with the base URL
  \<open>http://e\<close> and absolute URLs on, and \<open>url("x")\<close> with absolute URLs off.
\<close>

theorem url_leading_slash_insensitive_witness:
  "url ''/x'' sample_config = ''http://e/x''
   \<and> url ''x'' (sample_config\<lparr>use_absolute_urls := Some (PBool False)\<rparr>) = ''/x''
   \<and> url ''//x'' sample_config = url ''/x'' sample_config"
  using url_leading_slash_insensitive [of "''/x''" sample_config]
        url_leading_slash_insensitive [of "''x''" "sample_config\<lparr>use_absolute_urls := Some (PBool False)\<rparr>"]
  by (simp add: sample_config_def lstrip_def)

text \<open>
  Claim C3 as stated fails: \<open>static\<close> does not read the switch of \<open>url\<close>. In a
  configuration with \<open>use_absolute_urls\<close> on and \<open>use_absolute_static\<close> absent, \<open>url\<close>
  returns an absolute URL and \<open>static\<close> a root-relative one.
\<close>

theorem static_switch_counterexample:
  "get_truthy (use_absolute_urls sample_config)
   \<and> url ''img/logo.png'' sample_config = base_url sample_config @ ''/img/logo.png''
   \<and> snd (static ''img/logo.png'' sample_config no_files) = ''/static/img/logo.png''
   \<and> snd (static ''img/logo.png'' sample_config no_files)
       \<noteq> base_url sample_config @ ''/static/img/logo.png''"
  by (simp add: sample_config_def url_def static_def lstrip_def Let_def)

text \<open>
  Claim C3, amended. \<open>static\<close> has a switch of its own, \<open>use_absolute_static\<close>, and
  otherwise builds its URL as \<open>url\<close> does: it returns what \<open>url\<close> returns for the path
  under \<open>static/\<close> in the configuration whose URL switch is set to the static switch,
  that is the base URL (when its switch is on) followed by \<open>/static/\<close> and the path
  without its leading slashes. It always returns, and it logs one warning exactly when
  the file is not on disk.
\<close>

theorem static_follows_own_switch:
  "snd (static p c ex) =
     url (''static/'' @ lstrip ''/'' p) (c\<lparr>use_absolute_urls := use_absolute_static c\<rparr>)
   \<and> snd (static p c ex) =
       (if get_truthy (use_absolute_static c) then base_url c else []) @ ''/static/'' @ lstrip ''/'' p
   \<and> fst (static p c ex) =
       (if ex (path_join (static_dir c) (lstrip ''/'' p)) then []
        else [Warning ''Static file not found''])"
  by (auto simp: static_def url_def Let_def lstrip_def)

text \<open>
  Claim C3, amended, at a file that is not on disk, with the static switch absent and
  with the static switch on.
\<close>

theorem static_follows_own_switch_witness:
  "static ''/img/logo.png'' sample_config no_files =
     ([Warning ''Static file not found''], ''/static/img/logo.png'')
   \<and> snd (static ''/img/logo.png'' (sample_config\<lparr>use_absolute_static := Some (PBool True)\<rparr>) no_files)
       = ''http://e/static/img/logo.png''"
  using static_follows_own_switch [of "''/img/logo.png''" sample_config no_files]
        static_follows_own_switch [of "''/img/logo.png''" "sample_config\<lparr>use_absolute_static := Some (PBool True)\<rparr>" no_files]
  by (simp add: sample_config_def no_files_def lstrip_def prod_eq_iff url_def path_join_def
        startswith_def endswith_def)

section \<open>The front matter parser\<close>

lemma find_sep_sound: "find_sep sep s = Some (a, b) \<Longrightarrow> s = a @ sep @ b"
proof (induction s arbitrary: a)
  case Nil
  then show ?case by (simp split: if_splits)
next
  case (Cons c cs)
  show ?case
  proof (cases "startswith (c # cs) sep")
    case True
    with Cons.prems have "a = []" "b = drop (length sep) (c # cs)" by simp_all
    moreover from True have "c # cs = sep @ drop (length sep) (c # cs)"
      unfolding startswith_def by (metis append_take_drop_id)
    ultimately show ?thesis by simp
  next
    case False
    with Cons.prems obtain a' where a': "find_sep sep cs = Some (a', b)" "a = c # a'"
      by (auto split: prod.splits)
    from Cons.IH [OF a'(1)] a'(2) show ?thesis by simp
  qed
qed

lemma split_max_two_shape:
  assumes "startswith content ''+++''" "split_max ''+++'' 2 content = [d, header, rest]"
  shows "d = [] \<and> content = ''+++'' @ header @ ''+++'' @ rest"
proof -
  from assms(1) obtain tl where c: "content = CHR ''+'' # CHR ''+'' # CHR ''+'' # tl"
    unfolding startswith_def
    by (cases content; cases "tl content"; cases "tl (tl content)") auto
  have two: "(2::nat) = Suc (Suc 0)" by simp
  from c have f1: "find_sep ''+++'' content = Some ([], tl)" by (simp add: startswith_def)
  with assms(2) have d: "d = []" and s2: "split_max ''+++'' (Suc 0) tl = [header, rest]"
    unfolding two by simp_all
  from s2 have "find_sep ''+++'' tl = Some (header, rest)"
    by (auto split: option.splits prod.splits)
  from find_sep_sound [OF this] c d show ?thesis by simp
qed

lemma find_sep_delimiter:
  "CHR ''+'' \<notin> set h \<Longrightarrow> find_sep ''+++'' (h @ ''+++'' @ rest) = Some (h, rest)"
  by (induction h) (auto simp: startswith_def)

lemma split_max_delimited:
  assumes "CHR ''+'' \<notin> set h"
  shows "split_max ''+++'' 2 (''+++'' @ h @ ''+++'' @ rest) = [[], h, rest]"
proof -
  have two: "(2::nat) = Suc (Suc 0)" by simp
  have "find_sep ''+++'' (''+++'' @ h @ ''+++'' @ rest) = Some ([], h @ ''+++'' @ rest)"
    using find_sep_delimiter [of "[]" "h @ ''+++'' @ rest"] by simp
  with find_sep_delimiter [OF assms, of rest] show ?thesis
    unfolding two by (simp only: split_max.simps option.case prod.case)
qed

lemma split_max_length: "length (split_max sep n s) \<le> Suc n"
  by (induction n arbitrary: s) (auto split: option.splits)

lemma split_max_two_parts:
  assumes "startswith content ''+++''" "\<not> length (split_max ''+++'' 2 content) < 3"
  shows "\<exists>header rest. split_max ''+++'' 2 content = [[], header, rest]"
proof -
  from assms(2) split_max_length [of "''+++''" 2 content]
  have "length (split_max ''+++'' 2 content) = 3" by simp
  then obtain d header rest where s: "split_max ''+++'' 2 content = [d, header, rest]"
    by (auto simp: length_Suc_conv numeral_3_eq_3)
  from split_max_two_shape [OF assms(1) s] s show ?thesis by simp
qed

text \<open>
  Claim C7, amended. The cases of \<open>parse_front_matter\<close>: a text that does not start with
  the delimiter is returned unchanged with an empty front matter; so is a text that
  starts with it but splits into fewer than three parts; when the three parts are there
  (the text is then the delimiter, the header, the delimiter and the rest) and the
  header decodes, the result is the decoded value, or the empty mapping when that value
  is falsy, with the rest stripped of surrounding whitespace; when the decoder raises
  \<open>JSONDecodeError\<close> the whole text, delimiters included, is the body, the front matter
  is empty and an error is logged; when the decoder raises anything else, the parser
  raises it and logs nothing. There is no other case: a text that starts with the
  delimiter and does not split into fewer than three parts splits into an empty text,
  the header and the rest.
\<close>

theorem parse_front_matter_cases:
  "(\<not> startswith content ''+++'' \<longrightarrow>
      snd (parse_front_matter loads content) = Inr (PDict [], content))
   \<and> (startswith content ''+++'' \<and> length (split_max ''+++'' 2 content) < 3 \<longrightarrow>
      snd (parse_front_matter loads content) = Inr (PDict [], content))
   \<and> (startswith content ''+++'' \<and> split_max ''+++'' 2 content = [d, header, rest]
        \<and> loads header = Inr v \<longrightarrow>
      content = ''+++'' @ header @ ''+++'' @ rest
      \<and> snd (parse_front_matter loads content) =
          Inr (if truthy v then v else PDict [], strip rest))
   \<and> (startswith content ''+++'' \<and> split_max ''+++'' 2 content = [d, header, rest]
        \<and> loads header = Inl JSONDecodeError \<longrightarrow>
      parse_front_matter loads content =
        ([Error ''Error parsing JSON front matter''], Inr (PDict [], content)))
   \<and> (startswith content ''+++'' \<and> split_max ''+++'' 2 content = [d, header, rest]
        \<and> loads header = Inl e \<and> e \<noteq> JSONDecodeError \<longrightarrow>
      parse_front_matter loads content = ([], Inl e))
   \<and> (startswith content ''+++'' \<and> \<not> length (split_max ''+++'' 2 content) < 3 \<longrightarrow>
      (\<exists>header rest. split_max ''+++'' 2 content = [[], header, rest]))"
  using split_max_two_shape [of content d header rest] split_max_two_parts [of content]
  by (auto simp: parse_front_matter_def Let_def simp del: split_max.simps split: exn.splits)

text \<open>
  Claim C7, amended, at six texts: no delimiter, no closing delimiter, a header that
  decodes to a mapping, a header that decodes to the empty mapping, a malformed header,
  and a header of 5000 digits.
\<close>

theorem parse_front_matter_cases_witness:
  \<open>snd (parse_front_matter sample_loads ''no front matter'') = Inr (PDict [], ''no front matter'')
   \<and> snd (parse_front_matter sample_loads ''+++{"title": "Hello"} never closed'')
       = Inr (PDict [], ''+++{"title": "Hello"} never closed'')
   \<and> snd (parse_front_matter sample_loads ''+++{"title": "Hello"}+++  body text '')
       = Inr (PDict [(''title'', PStr ''Hello'')], ''body text'')
   \<and> snd (parse_front_matter sample_loads ''+++{}+++body'') = Inr (PDict [], ''body'')
   \<and> snd (parse_front_matter sample_loads ''+++{oops+++body'') = Inr (PDict [], ''+++{oops+++body'')
   \<and> parse_front_matter sample_loads_limits (''+++'' @ replicate 5000 CHR ''1'' @ ''+++body'')
       = ([], Inl ValueError)\<close>
proof -
  have two: "(2::nat) = Suc (Suc 0)" by simp
  have s1: \<open>split_max ''+++'' 2 ''+++{"title": "Hello"} never closed'' = [[], ''{"title": "Hello"} never closed'']\<close>
    unfolding two by (simp add: startswith_def)
  have s2: \<open>split_max ''+++'' 2 ''+++{"title": "Hello"}+++  body text '' = [[], ''{"title": "Hello"}'', ''  body text '']\<close>
    unfolding two by (simp add: startswith_def)
  have s3: \<open>split_max ''+++'' 2 ''+++{}+++body'' = [[], ''{}'', ''body'']\<close>
    unfolding two by (simp add: startswith_def)
  have s4: \<open>split_max ''+++'' 2 ''+++{oops+++body'' = [[], ''{oops'', ''body'']\<close>
    unfolding two by (simp add: startswith_def)
  have st: "strip ''  body text '' = ''body text''" "strip ''body'' = ''body''"
    by (simp_all add: strip_def isspace_def)
  define digits where "digits = ''+++'' @ replicate 5000 CHR ''1'' @ ''+++body''"
  have s5: "split_max ''+++'' 2 digits = [[], replicate 5000 CHR ''1'', ''body'']"
    using split_max_delimited [of "replicate 5000 CHR ''1''" "''body''"]
    by (simp add: digits_def)
  have d5: "startswith digits ''+++''" by (simp add: digits_def startswith_def)
  have l5: "sample_loads_limits (replicate 5000 CHR ''1'') = Inl ValueError"
    by (simp add: sample_loads_limits_def list_all_iff)
  have "parse_front_matter sample_loads_limits digits = ([], Inl ValueError)"
    using parse_front_matter_cases [of digits sample_loads_limits "[]"
        "replicate 5000 CHR ''1''" "''body''" _ ValueError] s5 d5 l5
    by simp
  then have w6: "parse_front_matter sample_loads_limits
                   (''+++'' @ replicate 5000 CHR ''1'' @ ''+++body'') = ([], Inl ValueError)"
    unfolding digits_def .
  have \<open>snd (parse_front_matter sample_loads ''no front matter'') = Inr (PDict [], ''no front matter'')
   \<and> snd (parse_front_matter sample_loads ''+++{"title": "Hello"} never closed'')
       = Inr (PDict [], ''+++{"title": "Hello"} never closed'')
   \<and> snd (parse_front_matter sample_loads ''+++{"title": "Hello"}+++  body text '')
       = Inr (PDict [(''title'', PStr ''Hello'')], ''body text'')
   \<and> snd (parse_front_matter sample_loads ''+++{}+++body'') = Inr (PDict [], ''body'')
   \<and> snd (parse_front_matter sample_loads ''+++{oops+++body'') = Inr (PDict [], ''+++{oops+++body'')\<close>
    using parse_front_matter_cases [of "''no front matter''" sample_loads]
      parse_front_matter_cases [of \<open>''+++{"title": "Hello"} never closed''\<close> sample_loads]
      parse_front_matter_cases [of \<open>''+++{"title": "Hello"}+++  body text ''\<close> sample_loads "[]"
         \<open>''{"title": "Hello"}''\<close> "''  body text ''" "PDict [(''title'', PStr ''Hello'')]"]
      parse_front_matter_cases [of \<open>''+++{}+++body''\<close> sample_loads "[]" "''{}''" "''body''" "PDict []"]
      parse_front_matter_cases [of \<open>''+++{oops+++body''\<close> sample_loads "[]" "''{oops''" "''body''"]
    by (simp add: s1 s2 s3 s4 st sample_loads_def startswith_def del: split_max.simps)
  with w6 show ?thesis by (simp only: simp_thms)
qed

lemma limits_samples:
  "sample_loads_limits (replicate 100000 CHR ''['') = Inl RecursionError"
  "sample_loads_limits (replicate 5000 CHR ''1'') = Inl ValueError"
  by (simp_all add: sample_loads_limits_def list_all_iff)

lemma parse_front_matter_delimited:
  assumes "CHR ''+'' \<notin> set h" "loads h = Inl e" "e \<noteq> JSONDecodeError"
  shows "parse_front_matter loads (''+++'' @ h @ ''+++'' @ rest) = ([], Inl e)"
proof -
  define content where "content = ''+++'' @ h @ ''+++'' @ rest"
  have s: "startswith content ''+++''" by (simp add: content_def startswith_def)
  have p: "split_max ''+++'' 2 content = [[], h, rest]"
    unfolding content_def by (rule split_max_delimited [OF assms(1)])
  from assms(2,3) s p have "parse_front_matter loads content = ([], Inl e)"
    by (cases e) (simp_all add: parse_front_matter_def Let_def del: split_max.simps)
  then show ?thesis unfolding content_def .
qed

text \<open>
  Claim C7 as stated fails where the decoder raises something else than
  \<open>JSONDecodeError\<close>. A header of 100000 opening brackets is not JSON, and the parser
  raises \<open>RecursionError\<close> instead of returning the whole text as body. A header of 5000
  digits is JSON, and the parser raises \<open>ValueError\<close> instead of returning its value.
\<close>

theorem parse_front_matter_raises:
  "snd (parse_front_matter sample_loads_limits
          (''+++'' @ replicate 100000 CHR ''['' @ ''+++body'')) = Inl RecursionError
   \<and> snd (parse_front_matter sample_loads_limits
          (''+++'' @ replicate 5000 CHR ''1'' @ ''+++body'')) = Inl ValueError"
proof -
  have a: "parse_front_matter sample_loads_limits
             (''+++'' @ replicate 100000 CHR ''['' @ ''+++'' @ ''body'') = ([], Inl RecursionError)"
    by (rule parse_front_matter_delimited) (simp_all add: limits_samples)
  have b: "parse_front_matter sample_loads_limits
             (''+++'' @ replicate 5000 CHR ''1'' @ ''+++'' @ ''body'') = ([], Inl ValueError)"
    by (rule parse_front_matter_delimited) (simp_all add: limits_samples)
  have c: "''+++'' @ ''body'' = ''+++body''" by simp
  from a b show ?thesis unfolding c by (simp only: snd_conv)
qed

text \<open>
  When \<open>JSONDecodeError\<close> is all the decoder raises, the parser returns a pair for every
  text.
\<close>

lemma parse_front_matter_no_exception:
  assumes "\<And>s e. loads s = Inl e \<Longrightarrow> e = JSONDecodeError"
  shows "\<exists>fm body. snd (parse_front_matter loads content) = Inr (fm, body)"
proof (cases "loads (split_max ''+++'' 2 content ! 1)")
  case (Inl e)
  with assms have "e = JSONDecodeError" by blast
  with Inl show ?thesis by (simp add: parse_front_matter_def Let_def del: split_max.simps)
next
  case (Inr v)
  then show ?thesis by (simp add: parse_front_matter_def Let_def del: split_max.simps)
qed

text \<open>
  Claim C6 fails on the code: the docstring promises \<open>front_matter_dict\<close>, but a header
  that decodes to a truthy value that is not a mapping is returned as it is. For the text
  \<open>+++[1]+++body\<close> the first component of the result is the list \<open>[1]\<close>.
\<close>

theorem parse_front_matter_returns_list:
  "snd (parse_front_matter sample_loads ''+++[1]+++body'') = Inr (PList [PInt 1], ''body'')
   \<and> \<not> is_dict (PList [PInt 1])"
proof -
  have s: "split_max ''+++'' 2 ''+++[1]+++body'' = [[], ''[1]'', ''body'']"
    by (simp add: numeral_2_eq_2 startswith_def)
  show ?thesis
    by (simp add: parse_front_matter_def Let_def s sample_loads_def startswith_def strip_def isspace_def
          del: split_max.simps)
qed

section \<open>The site data tree\<close>

lemma find_sep_char_None: "c \<notin> set s \<Longrightarrow> find_sep [c] s = None"
  by (induction s) (auto simp: startswith_def)

lemma split_all_no_sep: "c \<notin> set s \<Longrightarrow> split_all [c] s = [s]"
  by (cases s) (auto simp: split_all_def find_sep_char_None startswith_def)

lemma splitext_no_slash: "splitext p = (name, ext) \<Longrightarrow> CHR ''/'' \<notin> set p \<Longrightarrow> CHR ''/'' \<notin> set name"
  by (auto simp: splitext_def Let_def split: option.splits if_splits dest: in_set_takeD)

text \<open>
  The keys are cut out of \<open>name\<close>, the file name without its extension, and not out of
  the relative path: a file name has no separator in it, so there is one key, and the
  value lands at the top level of \<open>data\<close> whatever directory the file is in.
\<close>
lemma load_data_file_flat:
  assumes "CHR ''/'' \<notin> set file_name" "splitext file_name = (name, ext)" "lower ext = ''.json''"
  shows "load_data_file (file_name, Some v) (logs, data) =
           Inr (logs @ [Info ''Loaded data''], AList.update name v data)"
  using assms splitext_no_slash [OF assms(2) assms(1)]
  by (simp add: load_data_file_def split_all_no_sep)

text \<open>
  Claim C1 fails on the code, whose comment says "Create nested dictionary structure
  based on path": for the file \<open>authors/jane.json\<close> under the data root the value is
  stored at \<open>data["jane"]\<close>, and there is nothing at \<open>data["authors"]["jane"]\<close>.
\<close>

theorem load_data_files_flat_keys:
  "load_data_files sample_config sample_data_disk =
     Inr ([Info ''Loading data files'', Info ''Loaded data'',
           Warning ''Skipping non-JSON data file'', Info ''Loaded data''],
          [(''site'', PStr ''top''), (''jane'', PInt 1)])
   \<and> lookup_path [''authors'', ''jane''] (PDict [(''site'', PStr ''top''), (''jane'', PInt 1)]) = None
   \<and> lookup_path [''jane''] (PDict [(''site'', PStr ''top''), (''jane'', PInt 1)]) = Some (PInt 1)"
  by code_simp

section \<open>The render loops\<close>

lemma sample_collections_loaded:
  "load_collections sample_world sample_config = Inr ([Info ''Loading collection''], sample_collections)"
  by code_simp

text \<open>
  Claim C5 fails on the code. The three skips leave the loop body with \<open>continue\<close>
  before the closing hook is reached: in the build of the sample site \<open>before_render_page\<close>
  fires for all seven items, and \<open>after_render_page\<close> fires for the three that render
  and for the page whose rendering raises, but not for the page that does not compile
  (\<open>draft.html\<close>), the item without layout (\<open>bare.html\<close>) or the item whose layout does
  not load (\<open>lost.html\<close>).
\<close>

theorem after_render_hook_skipped:
  "render_all_content sample_world sample_engine sample_config [] sample_collections =
     Inr \<lparr>files =
            [(''output/index.html'', ''<h1>Home</h1>''),
             (''output/blog/first.html'', ''<p>Hello</p>''),
             (''output/blog/deep.html'', ''<p>Deep</p>'')],
          rendered_pages_info =
            [\<lparr>pi_source_path = ''pages/index.html'', pi_output_path = ''output/index.html'',
              pi_url = ''http://e/index.html'', pi_front_matter = PDict [],
              pi_content = ''<h1>Home</h1>''\<rparr>,
             \<lparr>pi_source_path = ''posts/first.html'', pi_output_path = ''output/blog/first.html'',
              pi_url = ''http://e/blog/first.html'',
              pi_front_matter = PDict [(''layout'', PStr ''post.html'')],
              pi_content = ''Hello''\<rparr>,
             \<lparr>pi_source_path = ''posts/2024/deep.html'', pi_output_path = ''output/blog/deep.html'',
              pi_url = ''http://e/blog/deep.html'',
              pi_front_matter = PDict [(''layout'', PStr ''post.html'')],
              pi_content = ''Deep''\<rparr>],
          events =
            [Log (Info ''Rendering regular pages''),
             Hook ''before_render_page'' [''pages/index.html''],
             Log (Info ''Rendered''),
             Hook ''after_render_page'' [''pages/index.html'', ''output/index.html''],
             Hook ''before_render_page'' [''pages/draft.html''],
             Log (Error ''Error creating template from string''),
             Hook ''before_render_page'' [''pages/crash.html''],
             Log (Error ''Error rendering template''),
             Hook ''after_render_page'' [''pages/crash.html'', ''output/crash.html''],
             Log (Info ''Rendering collection items''),
             Hook ''before_render_page'' [''posts/first.html''],
             Log (Info ''Rendered''),
             Hook ''after_render_page'' [''posts/first.html'', ''output/blog/first.html''],
             Hook ''before_render_page'' [''posts/bare.html''],
             Log (Warning ''Collection item has no layout''),
             Hook ''before_render_page'' [''posts/lost.html''],
             Log (Error ''Error loading layout template''),
             Hook ''before_render_page'' [''posts/2024/deep.html''],
             Log (Info ''Rendered''),
             Hook ''after_render_page'' [''posts/2024/deep.html'', ''output/blog/deep.html'']]\<rparr>"
  by code_simp

lemma bind_exn_simps [simp]:
  "bind_exn (Inl e) f = Inl e"
  "bind_exn (Inr v) f = f v"
  by (simp_all add: bind_exn_def)

text \<open>
  Claim C8. When the template of a page, or the layout of a collection item, raises
  while it is rendered with the context built for that item, the loop body returns
  normally: no file is written, no Rendered Page Record is appended, the error is logged
  between the two hooks, and the loop goes on with the remaining items from that state.
\<close>

theorem render_failure_is_contained:
  "(endswith page_file ''.html''
    \<and> relpath (getcwd w) (path_join root page_file) (pages_dir config) = Inr rel
    \<and> parse_front_matter (json_loads w) content = (plogs, Inr (fm, body))
    \<and> resolve_page_data eng config fm = Inr (dlogs, pdata, urls)
    \<and> from_string eng body = Some t
    \<and> t (make_context config sdata cdata fm pdata urls None rel) = None
    \<longrightarrow>
    (\<exists>st'. render_page w eng config sdata cdata root (page_file, content) st = Inr st'
       \<and> files st' = files st
       \<and> rendered_pages_info st' = rendered_pages_info st
       \<and> events st' =
           events st @ [Hook ''before_render_page'' [path_join root page_file]]
             @ map Log (plogs @ dlogs)
             @ [Log (Error ''Error rendering template''),
                Hook ''after_render_page''
                  [path_join root page_file, path_join (output_dir config) rel]]
       \<and> render_page_files w eng config sdata cdata root ((page_file, content) # fs) st =
           render_page_files w eng config sdata cdata root fs st'))
   \<and>
   (collection_output config cn = Inr out
    \<and> py_get (item_front_matter it) ''layout'' = Inr (Some layout)
    \<and> truthy layout
    \<and> resolve_page_data eng config (item_front_matter it) = Inr (dlogs', pdata', urls')
    \<and> get_template eng layout = Some t'
    \<and> t' (make_context config sdata cdata (item_front_matter it) pdata' urls'
             (Some (item_content it)) (path_join out (basename (item_path it)))) = None
    \<longrightarrow>
    (\<exists>st'. render_item w eng config sdata cdata cn it st = Inr st'
       \<and> files st' = files st
       \<and> rendered_pages_info st' = rendered_pages_info st
       \<and> events st' =
           events st @ [Hook ''before_render_page'' [item_path it]]
             @ map Log dlogs'
             @ [Log (Error ''Error rendering template''),
                Hook ''after_render_page''
                  [item_path it,
                   path_join (output_dir config) (path_join out (basename (item_path it)))]]
       \<and> render_items w eng config sdata cdata cn (it # its) st =
           render_items w eng config sdata cdata cn its st'))"
  by (auto simp: render_page_def render_item_def render_and_save_output_def finish_item_def
        emit_def Let_def)


text \<open>
  Claim C8 at the page \<open>crash.html\<close> and at an item with the layout \<open>boom.html\<close>, from a
  state that already holds a file and a record.
\<close>

theorem render_failure_is_contained_witness:
  "(\<exists>st'. render_page sample_world sample_engine sample_config [] sample_collections ''pages''
            (''crash.html'', ''{{ 1/0 }}'') sample_state = Inr st'
      \<and> files st' = files sample_state
      \<and> rendered_pages_info st' = rendered_pages_info sample_state
      \<and> events st' =
           events sample_state @
           [Hook ''before_render_page'' [''pages/crash.html''],
            Log (Error ''Error rendering template''),
            Hook ''after_render_page'' [''pages/crash.html'', ''output/crash.html'']]
      \<and> render_page_files sample_world sample_engine sample_config [] sample_collections ''pages''
            [(''crash.html'', ''{{ 1/0 }}''), (''index.html'', ''<h1>Home</h1>'')] sample_state =
          render_page_files sample_world sample_engine sample_config [] sample_collections ''pages''
            [(''index.html'', ''<h1>Home</h1>'')] st')
   \<and>
   (\<exists>st'. render_item sample_world sample_engine sample_config [] sample_collections ''posts''
            boom_item sample_state = Inr st'
      \<and> files st' = files sample_state
      \<and> rendered_pages_info st' = rendered_pages_info sample_state
      \<and> events st' =
           events sample_state @
           [Hook ''before_render_page'' [''posts/boom.html''],
            Log (Error ''Error rendering template''),
            Hook ''after_render_page'' [''posts/boom.html'', ''output/blog/boom.html'']]
      \<and> render_items sample_world sample_engine sample_config [] sample_collections ''posts''
            [boom_item] sample_state = Inr st')"
proof -
  have p1: "endswith ''crash.html'' ''.html''" by code_simp
  have p2: "relpath (getcwd sample_world) (path_join ''pages'' ''crash.html'') (pages_dir sample_config)
              = Inr ''crash.html''" by code_simp
  have p3: "parse_front_matter (json_loads sample_world) ''{{ 1/0 }}'' = ([], Inr (PDict [], ''{{ 1/0 }}''))"
    by code_simp
  have p4: "resolve_page_data sample_engine sample_config (PDict []) = Inr ([], PDict [], [])"
    by code_simp
  have p5: "from_string sample_engine ''{{ 1/0 }}'' = Some (\<lambda>ctx. None)"
    by (simp add: sample_engine_def)
  have q1: "collection_output sample_config ''posts'' = Inr ''blog''" by code_simp
  have q2: "py_get (item_front_matter boom_item) ''layout'' = Inr (Some (PStr ''boom.html''))"
    by code_simp
  have q3: "truthy (PStr ''boom.html'')" by simp
  have q4: "resolve_page_data sample_engine sample_config (item_front_matter boom_item)
              = Inr ([], PDict [], [])" by code_simp
  have q5: "get_template sample_engine (PStr ''boom.html'') = Some (\<lambda>ctx. None)"
    by (simp add: sample_engine_def)
  have n1: "path_join ''pages'' ''crash.html'' = ''pages/crash.html''" by code_simp
  have n2: "path_join (output_dir sample_config) ''crash.html'' = ''output/crash.html''" by code_simp
  have n3: "path_join (output_dir sample_config) (path_join ''blog'' (basename ''posts/boom.html''))
              = ''output/blog/boom.html''" by code_simp
  have n4: "item_path boom_item = ''posts/boom.html''" by (simp add: boom_item_def)
  note inst = render_failure_is_contained
    [where page_file = "''crash.html''" and w = sample_world and root = "''pages''"
       and config = sample_config and rel = "''crash.html''" and content = "''{{ 1/0 }}''"
       and plogs = "[]" and fm = "PDict []" and body = "''{{ 1/0 }}''" and eng = sample_engine
       and dlogs = "[]" and pdata = "PDict []" and urls = "[]" and t = "\<lambda>ctx. None"
       and sdata = "[]" and cdata = sample_collections and st = sample_state
       and fs = "[(''index.html'', ''<h1>Home</h1>'')]"
       and cn = "''posts''" and out = "''blog''" and it = boom_item
       and layout = "PStr ''boom.html''" and dlogs' = "[]" and pdata' = "PDict []"
       and urls' = "[]" and t' = "\<lambda>ctx. None" and its = "[]"]
  from inst p1 p2 p3 p4 p5 q1 q2 q3 q4 q5 show ?thesis
    by (simp add: n1 n2 n3 n4)
qed

section \<open>The feed\<close>

lemma map_exn_Inr:
  "(\<And>x. x \<in> set xs \<Longrightarrow> f x = Inr (g x)) \<Longrightarrow> map_exn f xs = Inr (map g xs)"
  by (induction xs) simp_all

lemma map_exn_map: "map_exn f (map g xs) = map_exn (\<lambda>x. f (g x)) xs"
  by (induction xs) simp_all














lemma py_sorted_reverse_mixed:
  assumes "1 < length kxs" "kx \<in> set kxs" "is_datetime (fst kx)"
    "kx' \<in> set kxs" "\<not> is_datetime (fst kx')"
  shows "py_sorted_reverse so kxs = Inl TypeError"
  using assms by (auto simp: py_sorted_reverse_def list_all_iff list_ex_iff)


lemma annotate_date_dict:
  assumes "item_front_matter p = PDict d"
  shows "\<exists>d'. annotate_date p = Inr (p\<lparr>item_front_matter := PDict d'\<rparr>)
           \<and> (\<forall>k. k \<noteq> ''_date_obj'' \<longrightarrow> map_of d' k = map_of d k)
           \<and> (has_text_date p \<or> map_of d ''_date_obj'' = None \<longrightarrow>
                (case map_of d' ''_date_obj'' of None \<Rightarrow> PDatetime datetime_min | Some v \<Rightarrow> v)
                  = PDatetime (spec_post_date p))"
proof (cases "has_text_date p")
  case True
  then obtain ds where ds: "map_of d ''date'' = Some (PStr ds)" "ds \<noteq> []"
    using assms
    by (auto simp: has_text_date_def front_matter_field_def split: option.splits pyval.splits)
  let ?d' = "AList.update ''_date_obj''
               (case strptime_ymd ds of Some dt \<Rightarrow> PDatetime dt | None \<Rightarrow> PDatetime datetime_min) d"
  from ds assms show ?thesis
    by (intro exI [of _ ?d'])
       (auto simp: annotate_date_def spec_post_date_def front_matter_field_def update_conv'
             split: option.splits)
next
  case False
  with assms have a: "annotate_date p = Inr p"
    by (auto simp: annotate_date_def has_text_date_def front_matter_field_def
             split: option.splits pyval.splits)
  have s: "spec_post_date p = datetime_min"
  proof (cases "map_of d ''date''")
    case None
    with assms show ?thesis by (simp add: spec_post_date_def front_matter_field_def)
  next
    case (Some v)
    with False assms show ?thesis
      by (cases v)
         (auto simp: spec_post_date_def has_text_date_def front_matter_field_def
               strptime_ymd_def)
  qed
  from a s assms False show ?thesis
    by (intro exI [of _ d]) simp
qed


lemma entry_of_annotated:
  assumes "annotate_date p = Inr p'"
  shows "\<exists>e. rss_entry p' = Inr e \<and> rss_link e = item_url p \<and> rss_guid e = item_url p
           \<and> rss_description e = spec_description p"
proof (cases "item_front_matter p")
  case (PDict d)
  from annotate_date_dict [OF PDict] assms obtain d' where
    d': "p' = p\<lparr>item_front_matter := PDict d'\<rparr>"
      "\<forall>k. k \<noteq> ''_date_obj'' \<longrightarrow> map_of d' k = map_of d k"
    by auto
  from d'(2) have "map_of d' ''description'' = map_of d ''description''" by simp
  with d'(1) PDict show ?thesis
    by (auto simp: rss_entry_def spec_description_def front_matter_field_def split: option.splits)
qed (use assms in \<open>simp_all add: annotate_date_def\<close>)




lemma annotated_key:
  assumes "is_dict (item_front_matter p)"
  shows "\<exists>p' key e. annotate_date p = Inr p' \<and> date_key p' = Inr key
           \<and> (has_text_date p \<or> front_matter_field p ''_date_obj'' = None
                \<longrightarrow> key = PDatetime (spec_post_date p))
           \<and> (\<not> has_text_date p \<longrightarrow>
                key = (case front_matter_field p ''_date_obj'' of
                         None \<Rightarrow> PDatetime datetime_min | Some v \<Rightarrow> v))
           \<and> rss_entry p' = Inr e \<and> rss_link e = item_url p"
proof -
  from assms obtain d where d: "item_front_matter p = PDict d"
    by (cases "item_front_matter p") auto
  from annotate_date_dict [OF d] obtain d' where
    d': "annotate_date p = Inr (p\<lparr>item_front_matter := PDict d'\<rparr>)"
      "has_text_date p \<or> map_of d ''_date_obj'' = None \<longrightarrow>
         (case map_of d' ''_date_obj'' of None \<Rightarrow> PDatetime datetime_min | Some v \<Rightarrow> v)
           = PDatetime (spec_post_date p)"
    by (elim exE conjE) (rule that)
  let ?p' = "p\<lparr>item_front_matter := PDict d'\<rparr>"
  let ?key = "case map_of d' ''_date_obj'' of None \<Rightarrow> PDatetime datetime_min | Some v \<Rightarrow> v"
  have k: "date_key ?p' = Inr ?key" by (simp add: date_key_def)
  have f: "front_matter_field p ''_date_obj'' = map_of d ''_date_obj''"
    using d by (simp add: front_matter_field_def)
  have n: "?key = (case front_matter_field p ''_date_obj'' of
                     None \<Rightarrow> PDatetime datetime_min | Some v \<Rightarrow> v)" if "\<not> has_text_date p"
  proof -
    from that d have a: "annotate_date p = Inr p"
      by (auto simp: annotate_date_def has_text_date_def front_matter_field_def
               split: option.splits pyval.splits)
    from trans [OF a [symmetric] d'(1)] have "p = ?p'" by (rule Inr_inject)
    then have "item_front_matter p = item_front_matter ?p'" by (rule arg_cong)
    with d have "d' = d" by simp
    with f show ?thesis by simp
  qed
  from entry_of_annotated [OF d'(1)] obtain e where
    e: "rss_entry ?p' = Inr e" "rss_link e = item_url p" by blast
  show ?thesis
  proof (intro exI conjI impI)
    show "annotate_date p = Inr ?p'" by (rule d'(1))
    show "date_key ?p' = Inr ?key" by (rule k)
    show "?key = PDatetime (spec_post_date p)"
      if "has_text_date p \<or> front_matter_field p ''_date_obj'' = None"
      using that d'(2) unfolding f by blast
    show "?key = (case front_matter_field p ''_date_obj'' of
                    None \<Rightarrow> PDatetime datetime_min | Some v \<Rightarrow> v)"
      if "\<not> has_text_date p" using that by (rule n)
    show "rss_entry ?p' = Inr e" by (rule e(1))
    show "rss_link e = item_url p" by (rule e(2))
  qed
qed


lemma feed_run:
  assumes posts: "map_of cdata ''posts'' = Some posts"
    and dicts: "\<forall>p \<in> set posts. is_dict (item_front_matter p)"
  shows "\<exists>ann key ent.
           (\<forall>p \<in> set posts. annotate_date p = Inr (ann p) \<and> date_key (ann p) = Inr (key p)
              \<and> (has_text_date p \<or> front_matter_field p ''_date_obj'' = None
                   \<longrightarrow> key p = PDatetime (spec_post_date p))
              \<and> (\<not> has_text_date p \<longrightarrow>
                   key p = (case front_matter_field p ''_date_obj'' of
                              None \<Rightarrow> PDatetime datetime_min | Some v \<Rightarrow> v))
              \<and> rss_entry (ann p) = Inr (ent p) \<and> rss_link (ent p) = item_url p)
         \<and> map_exn annotate_date posts = Inr (map ann posts)
         \<and> map_exn date_key (map ann posts) = Inr (map key posts)
         \<and> zip (map key posts) (map ann posts) = map (\<lambda>p. (key p, ann p)) posts"
proof -
  define ann where "ann p = (case annotate_date p of Inr p' \<Rightarrow> p' | Inl e \<Rightarrow> p)" for p
  define key where "key p = (case date_key (ann p) of Inr v \<Rightarrow> v | Inl e \<Rightarrow> PNone)" for p
  define ent where "ent p = (case rss_entry (ann p) of Inr e \<Rightarrow> e | Inl x \<Rightarrow> undefined)" for p
  have facts: "annotate_date p = Inr (ann p) \<and> date_key (ann p) = Inr (key p)
              \<and> (has_text_date p \<or> front_matter_field p ''_date_obj'' = None
                   \<longrightarrow> key p = PDatetime (spec_post_date p))
              \<and> (\<not> has_text_date p \<longrightarrow>
                   key p = (case front_matter_field p ''_date_obj'' of
                              None \<Rightarrow> PDatetime datetime_min | Some v \<Rightarrow> v))
              \<and> rss_entry (ann p) = Inr (ent p) \<and> rss_link (ent p) = item_url p"
    if "p \<in> set posts" for p
  proof -
    from dicts that have "is_dict (item_front_matter p)" by blast
    from annotated_key [OF this] obtain p' k e where
      a: "annotate_date p = Inr p'" and b: "date_key p' = Inr k"
      and c: "has_text_date p \<or> front_matter_field p ''_date_obj'' = None
                \<longrightarrow> k = PDatetime (spec_post_date p)"
      and c': "\<not> has_text_date p \<longrightarrow>
                k = (case front_matter_field p ''_date_obj'' of
                       None \<Rightarrow> PDatetime datetime_min | Some v \<Rightarrow> v)"
      and e: "rss_entry p' = Inr e" and l: "rss_link e = item_url p"
      by (elim exE conjE) (rule that)
    from a have 1: "ann p = p'" by (simp add: ann_def)
    from b 1 have 2: "key p = k" by (simp add: key_def)
    from e 1 have 3: "ent p = e" by (simp add: ent_def)
    from a b c c' e l show ?thesis unfolding 1 2 3 by (intro conjI)
  qed
  have s1: "map_exn annotate_date posts = Inr (map ann posts)"
    by (rule map_exn_Inr) (use facts in blast)
  have s2: "map_exn date_key (map ann posts) = Inr (map key posts)"
    unfolding map_exn_map by (rule map_exn_Inr) (use facts in blast)
  have z: "zip (map key posts) (map ann posts) = map (\<lambda>p. (key p, ann p)) posts"
    by (induction posts) simp_all
  note all = ballI [of "set posts", OF facts]
  show ?thesis
    apply (rule exI [of _ ann], rule exI [of _ key], rule exI [of _ ent], intro conjI)
       apply (rule all, assumption)
      apply (rule s1)
     apply (rule s2)
    apply (rule z)
    done
qed




text \<open>
  Outside that condition: when a post with a text date meets a post that has none and
  brings a \<open>_date_obj\<close> of its own, the sort raises and nothing is written.
\<close>

lemma rss_feed_mixed_keys:
  assumes posts: "map_of cdata ''posts'' = Some posts"
    and dicts: "\<forall>p \<in> set posts. is_dict (item_front_matter p)"
    and p: "p \<in> set posts" "has_text_date p"
    and q: "q \<in> set posts" "\<not> has_text_date q" "front_matter_field q ''_date_obj'' = Some v"
      "\<not> is_datetime v"
  shows "generate_rss_feed sorted_other open_w config cdata = Inl TypeError"
proof -
  from feed_run [OF posts dicts] obtain ann key ent where
    facts: "\<forall>p \<in> set posts. annotate_date p = Inr (ann p) \<and> date_key (ann p) = Inr (key p)
              \<and> (has_text_date p \<or> front_matter_field p ''_date_obj'' = None
                   \<longrightarrow> key p = PDatetime (spec_post_date p))
              \<and> (\<not> has_text_date p \<longrightarrow>
                   key p = (case front_matter_field p ''_date_obj'' of
                              None \<Rightarrow> PDatetime datetime_min | Some v \<Rightarrow> v))
              \<and> rss_entry (ann p) = Inr (ent p) \<and> rss_link (ent p) = item_url p"
    and s1: "map_exn annotate_date posts = Inr (map ann posts)"
    and s2: "map_exn date_key (map ann posts) = Inr (map key posts)"
    and z: "zip (map key posts) (map ann posts) = map (\<lambda>p. (key p, ann p)) posts"
    by (elim exE conjE) (rule that)
  have kp: "is_datetime (key p)" using bspec [OF facts p(1)] p(2) by simp
  have kq: "\<not> is_datetime (key q)" using bspec [OF facts q(1)] q(2,3,4) by simp
  from p(2) q(2) have "p \<noteq> q" by auto
  with p(1) q(1) have "1 < length posts"
    by (cases posts; cases "tl posts") auto
  then have "1 < length (map (\<lambda>p. (key p, ann p)) posts)" by simp
  then have s3: "py_sorted_reverse sorted_other (map (\<lambda>p. (key p, ann p)) posts) = Inl TypeError"
    by (rule py_sorted_reverse_mixed [where kx = "(key p, ann p)" and kx' = "(key q, ann q)"])
       (use p(1) q(1) kp kq in auto)
  from p(1) have "posts \<noteq> []" by auto
  then show ?thesis
    by (simp add: generate_rss_feed_def posts s1 s2 z s3 Let_def)
qed









section \<open>Paths of collection items\<close>

text \<open>
  Splitting at a single character, one character at a time, and what it gives for a
  joined path: the components of \<open>os.path.join(a, b)\<close> are those of \<open>a\<close> followed by those
  of \<open>b\<close>, unless \<open>b\<close> is absolute.
\<close>

lemma find_sep_shorter: "find_sep [c] s = Some (a, b) \<Longrightarrow> length b < length s"
  using find_sep_sound [of "[c]" s a b] by simp

lemma split_max_more_fuel:
  "length s \<le> n \<Longrightarrow> split_max [c] (Suc n) s = split_max [c] n s"
proof (induction n arbitrary: s)
  case 0
  then show ?case by simp
next
  case (Suc n)
  show ?case
  proof (cases "find_sep [c] s")
    case None
    then show ?thesis by simp
  next
    case (Some ab)
    obtain a b where ab: "ab = (a, b)" by (cases ab)
    from find_sep_shorter Some ab have "length b < length s" by blast
    with Suc.prems have "length b \<le> n" by simp
    from Suc.IH [OF this] Some ab show ?thesis by simp
  qed
qed

lemma split_max_fuel:
  "split_max [c] (length s + k) s = split_max [c] (length s) s"
proof (induction k)
  case 0
  show ?case by simp
next
  case (Suc k)
  have "split_max [c] (Suc (length s + k)) s = split_max [c] (length s + k) s"
    by (rule split_max_more_fuel) simp
  with Suc show ?case by simp
qed

lemma split_all_Nil: "split_all [c] [] = [[]]"
  by (simp add: split_all_def)

lemma find_sep_Cons_neq:
  "x \<noteq> c \<Longrightarrow> find_sep [c] (x # xs) = map_option (\<lambda>(a, b). (x # a, b)) (find_sep [c] xs)"
  by (simp add: startswith_def)

lemma find_sep_Cons_eq: "find_sep [c] (c # xs) = Some ([], xs)"
  by (simp add: startswith_def)

lemma split_all_Cons:
  "split_all [c] (x # xs) =
     (if x = c then [] # split_all [c] xs
      else (x # hd (split_all [c] xs)) # tl (split_all [c] xs))"
proof (cases "x = c")
  case True
  then show ?thesis
    unfolding split_all_def by (simp only: length_Cons split_max.simps find_sep_Cons_eq) simp
next
  case False
  show ?thesis
  proof (cases "find_sep [c] xs")
    case None
    have l: "split_all [c] (x # xs) = [x # xs]"
      unfolding split_all_def
      by (simp only: length_Cons split_max.simps find_sep_Cons_neq [OF False] None) simp
    have r: "split_all [c] xs = [xs]"
      unfolding split_all_def using None by (cases "length xs") simp_all
    from False l r show ?thesis by simp
  next
    case (Some ab)
    obtain a b where ab: "ab = (a, b)" by (cases ab)
    from find_sep_shorter Some ab have lt: "length b < length xs" by blast
    then obtain m where m: "length xs = Suc m" by (cases "length xs") simp_all
    from lt m have "length b \<le> m" by simp
    then have f: "split_max [c] (Suc m) b = split_max [c] m b"
      by (rule split_max_more_fuel)
    have l: "split_all [c] (x # xs) = (x # a) # split_max [c] (Suc m) b"
      unfolding split_all_def
      by (simp only: length_Cons split_max.simps find_sep_Cons_neq [OF False] Some ab m) simp
    have r: "split_all [c] xs = a # split_max [c] m b"
      unfolding split_all_def m using Some ab by simp
    from False l r f show ?thesis by simp
  qed
qed

lemma split_all_not_Nil: "split_all [c] s \<noteq> []"
  by (cases s) (simp_all add: split_all_Nil split_all_Cons)

lemma split_all_append:
  "split_all [c] (a @ c # b) = split_all [c] a @ split_all [c] b"
proof (induction a)
  case Nil
  show ?case by (simp add: split_all_Cons split_all_Nil)
next
  case (Cons x a)
  obtain y ys where y: "split_all [c] a = y # ys"
    using split_all_not_Nil [of c a] by (cases "split_all [c] a") auto
  with Cons show ?case by (simp add: split_all_Cons)
qed

lemma split_all_free: "c \<notin> set s \<Longrightarrow> split_all [c] s = [s]"
  by (induction s) (auto simp: split_all_Nil split_all_Cons)

lemma split_all_parts_free: "x \<in> set (split_all [c] s) \<Longrightarrow> c \<notin> set x"
proof (induction s arbitrary: x)
  case Nil
  then show ?case by (simp add: split_all_Nil)
next
  case (Cons a s)
  obtain y ys where y: "split_all [c] s = y # ys"
    using split_all_not_Nil [of c s] by (cases "split_all [c] s") auto
  with Cons show ?case by (auto simp: split_all_Cons split: if_splits)
qed

lemma path_components_Nil: "path_components [] = []"
  by (simp add: path_components_def split_all_Nil)

lemma path_components_append:
  "path_components (a @ ''/'' @ b) = path_components a @ path_components b"
  by (simp add: path_components_def split_all_append)

lemma path_components_slash_free:
  "s \<noteq> [] \<Longrightarrow> CHR ''/'' \<notin> set s \<Longrightarrow> path_components s = [s]"
  by (simp add: path_components_def split_all_free)

lemma path_components_plain: "plain_name n \<Longrightarrow> path_components n = [n]"
  by (simp add: plain_name_def path_components_slash_free)

lemma path_components_trailing: "path_components (a @ ''/'') = path_components a"
  using path_components_append [of a "[]"] by (simp add: path_components_Nil)

lemma endswith_slash:
  assumes "endswith a ''/''"
  shows "\<exists>a'. a = a' @ ''/''"
proof -
  from assms have "drop (length a - 1) a = ''/''" by (simp add: endswith_def)
  then have "a = take (length a - 1) a @ ''/''"
    using append_take_drop_id [of "length a - 1" a] by simp
  then show ?thesis by blast
qed

lemma path_components_join:
  assumes "\<not> startswith b ''/''"
  shows "path_components (path_join a b) = path_components a @ path_components b"
proof (cases "a = [] \<or> endswith a ''/''")
  case False
  with assms have "path_join a b = a @ ''/'' @ b" by (simp add: path_join_def)
  then show ?thesis using path_components_append [of a b] by simp
next
  case True
  with assms have j: "path_join a b = a @ b" by (simp add: path_join_def)
  show ?thesis
  proof (cases "a = []")
    case True
    with j show ?thesis by (simp add: path_components_Nil)
  next
    case False
    with True obtain a' where a': "a = a' @ ''/''" using endswith_slash by blast
    have "path_components (a' @ ''/'' @ b) = path_components a' @ path_components b"
      by (rule path_components_append)
    moreover have "path_components (a' @ ''/'') = path_components a'"
      by (rule path_components_trailing)
    moreover have "path_join a b = a' @ ''/'' @ b" using j a' by simp
    ultimately show ?thesis using a' by simp
  qed
qed

end
